theory Spec2Isabelle
  imports Complex_Main
begin

section \<open>Paginated transcripts (usePaginatedTranscripts.ts)\<close>

text \<open>
  A transcript row as the hook receives it from \<^verbatim>\<open>api_get_meeting_transcripts\<close>.
  Times are seconds relative to the start of the audio; a finite JavaScript number is a
  rational, and an absent field is \<open>None\<close>.  The fields \<open>id\<close> and \<open>text\<close> of the source
  carry a suffix here.
\<close>

record Transcript =
  id_tr :: string
  text_tr :: string
  timestamp_tr :: string
  audio_start_time :: "rat option"
  audio_end_time :: "rat option"
  confidence_tr :: "rat option"

record TranscriptSegmentData =
  id_seg :: string
  timestamp_seg :: rat
  endTime :: "rat option"
  text_seg :: string
  confidence_seg :: "rat option"

record PaginatedTranscriptsResponse =
  transcripts_resp :: "Transcript list"
  total_count :: nat
  has_more :: bool

text \<open>The state of the hook: its \<^verbatim>\<open>useState\<close> cells and its refs.\<close>

record paginated =
  transcripts :: "Transcript list"
  totalCount :: nat
  isLoading :: bool
  isLoadingMore :: bool
  hasMore :: bool
  error_pg :: "string option"
  offsetRef :: nat
  isLoadingRef :: bool
  lastLoadTimeRef :: int

definition DEFAULT_PAGE_SIZE :: nat where
  "DEFAULT_PAGE_SIZE = 100"

text \<open>\<^verbatim>\<open>a.audio_start_time ?? 0\<close>\<close>

definition start_or_zero :: "Transcript \<Rightarrow> rat" where
  "start_or_zero t = (case audio_start_time t of None \<Rightarrow> 0 | Some x \<Rightarrow> x)"

definition convertTranscriptsToSegments :: "Transcript list \<Rightarrow> TranscriptSegmentData list" where
  "convertTranscriptsToSegments ts =
     map (\<lambda>t. \<lparr>id_seg = id_tr t, timestamp_seg = start_or_zero t, endTime = audio_end_time t,
                text_seg = text_tr t, confidence_seg = confidence_tr t\<rparr>) ts"

text \<open>
  The updater passed to \<^verbatim>\<open>setTranscripts\<close> when \<^verbatim>\<open>append\<close> is true: new rows whose id
  is already loaded are dropped, the rest is appended, and the whole list is sorted with
  the comparator \<^verbatim>\<open>(a.audio_start_time ?? 0) - (b.audio_start_time ?? 0)\<close>.
  \<^verbatim>\<open>Array.prototype.sort\<close> is stable, so it is the stable sort by that key.
\<close>

definition merge_page :: "Transcript list \<Rightarrow> Transcript list \<Rightarrow> Transcript list" where
  "merge_page prev newTranscripts =
     (let existingIds = set (map id_tr prev);
          uniqueNew = filter (\<lambda>t. id_tr t \<notin> existingIds) newTranscripts
      in sort_key start_or_zero (prev @ uniqueNew))"

text \<open>
  \<^verbatim>\<open>loadTranscriptsAtOffset(offset, append)\<close>.  The awaited \<^verbatim>\<open>invoke\<close> either rejects
  (\<open>None\<close>) or yields a response.  Without a meeting id nothing happens.
\<close>

definition loadTranscriptsAtOffset ::
  "string option \<Rightarrow> nat \<Rightarrow> bool \<Rightarrow> PaginatedTranscriptsResponse option \<Rightarrow> paginated \<Rightarrow> paginated" where
  "loadTranscriptsAtOffset meetingId offset append_pg response st =
     (if meetingId = None \<or> meetingId = Some [] then st
      else case response of
        None \<Rightarrow> st\<lparr>error_pg := Some ''Failed to load transcripts''\<rparr>
      | Some r \<Rightarrow>
          let newTranscripts = transcripts_resp r
          in st\<lparr>transcripts := (if append_pg then merge_page (transcripts st) newTranscripts
                                  else newTranscripts),
                 hasMore := has_more r,
                 totalCount := total_count r,
                 offsetRef := offset + length newTranscripts\<rparr>)"

text \<open>
  \<^verbatim>\<open>loadMore\<close>, called at clock reading \<open>now\<close>; the response is the one its read would
  receive.
\<close>

definition loadMore ::
  "string option \<Rightarrow> int \<Rightarrow> PaginatedTranscriptsResponse option \<Rightarrow> paginated \<Rightarrow> paginated" where
  "loadMore meetingId now response st =
     (if now - lastLoadTimeRef st < 100 then st
      else if isLoadingRef st \<or> \<not> hasMore st \<or> meetingId = None \<or> meetingId = Some [] \<or> isLoading st
      then st
      else
        let st1 = st\<lparr>lastLoadTimeRef := now, isLoadingRef := True, isLoadingMore := True\<rparr>;
            st2 = loadTranscriptsAtOffset meetingId (offsetRef st1) True response st1
        in st2\<lparr>isLoadingMore := False, isLoadingRef := False\<rparr>)"

text \<open>A sequence of \<^verbatim>\<open>loadMore\<close> calls, each with its clock reading and its response.\<close>

fun loadMore_seq ::
  "string option \<Rightarrow> (int \<times> PaginatedTranscriptsResponse option) list \<Rightarrow> paginated \<Rightarrow> paginated" where
  "loadMore_seq meetingId [] st = st"
| "loadMore_seq meetingId ((now, response) # rest) st =
     loadMore_seq meetingId rest (loadMore meetingId now response st)"

text \<open>The pages a sequence of appending reads delivers, merged in their order of arrival.\<close>

fun merge_pages :: "Transcript list \<Rightarrow> Transcript list list \<Rightarrow> Transcript list" where
  "merge_pages prev [] = prev"
| "merge_pages prev (page # pages) = merge_pages (merge_page prev page) pages"

text \<open>A row with the given id and start time; the other fields are left empty.\<close>

definition row :: "string \<Rightarrow> rat option \<Rightarrow> Transcript" where
  "row i s = \<lparr>id_tr = i, text_tr = [], timestamp_tr = [], audio_start_time = s,
              audio_end_time = None, confidence_tr = None\<rparr>"

text \<open>The hook once its first page is in and more rows are announced.\<close>

definition loaded :: "Transcript list \<Rightarrow> paginated" where
  "loaded ts = \<lparr>transcripts = ts, totalCount = 250, isLoading = False, isLoadingMore = False,
                hasMore = True, error_pg = None, offsetRef = length ts, isLoadingRef = False,
                lastLoadTimeRef = 0\<rparr>"

section \<open>Transcript recovery (useTranscriptRecovery in useMeetingOperations.ts)\<close>

text \<open>
  A value thrown by an awaited call: an \<^verbatim>\<open>Error\<close> object with its message, or any other
  value (a rejected \<^verbatim>\<open>invoke\<close> carries a plain string).
\<close>

datatype exn = Error string | NonError string

text \<open>\<^verbatim>\<open>error instanceof Error ? error.message : 'Unknown error'\<close>\<close>

fun message_of :: "exn \<Rightarrow> string" where
  "message_of (Error m) = m"
| "message_of (NonError v) = ''Unknown error''"

text \<open>
  A checkpoint session of the browser-side store.  \<open>lastUpdated\<close> is in milliseconds since
  the epoch; an undefined \<open>folderPath\<close> is \<open>None\<close>.
\<close>

record MeetingMetadata =
  meetingId :: string
  title :: string
  lastUpdated :: int
  folderPath :: "string option"

text \<open>
  The four items of \<^verbatim>\<open>sessionStorage\<close> the scan reads.  An item is \<open>None\<close> when
  \<^verbatim>\<open>getItem\<close> returns \<^verbatim>\<open>null\<close>.  The two timestamp items are used only through
  \<^verbatim>\<open>parseInt\<close>, so they are kept as what \<^verbatim>\<open>parseInt\<close> reads from them, together with
  whether the stored text is empty.
\<close>

datatype parsed = NaN | Num int

record stamp =
  nonempty :: bool
  parseInt :: parsed

record sessionStorage =
  just_saved_meeting_id :: "string option"
  just_saved_meeting_timestamp :: "stamp option"
  just_stopped_meeting_key :: "string option"
  just_stopped_meeting_timestamp :: "stamp option"

text \<open>Truthiness of a value read with \<^verbatim>\<open>getItem\<close>: neither \<^verbatim>\<open>null\<close> nor empty.\<close>

fun truthy_str :: "string option \<Rightarrow> bool" where
  "truthy_str None = False"
| "truthy_str (Some s) = (s \<noteq> [])"

fun truthy_stamp :: "stamp option \<Rightarrow> bool" where
  "truthy_stamp None = False"
| "truthy_stamp (Some s) = nonempty s"

text \<open>\<^verbatim>\<open>Date.now() - parseInt(ts) > bound\<close> and \<^verbatim>\<open>... < bound\<close>; both are false on \<^verbatim>\<open>NaN\<close>.\<close>

fun age_above :: "int \<Rightarrow> stamp option \<Rightarrow> int \<Rightarrow> bool" where
  "age_above now (Some s) bound = (case parseInt s of NaN \<Rightarrow> False | Num t \<Rightarrow> now - t > bound)"
| "age_above now None bound = False"

fun age_below :: "int \<Rightarrow> stamp option \<Rightarrow> int \<Rightarrow> bool" where
  "age_below now (Some s) bound = (case parseInt s of NaN \<Rightarrow> False | Num t \<Rightarrow> now - t < bound)"
| "age_below now None bound = False"

text \<open>The state of the hook.\<close>

record recovery =
  recoverableMeetings :: "MeetingMetadata list"
  isLoading_rec :: bool
  isRecovering :: bool

text \<open>
  The two clean-ups of stale flags at the head of the scan: a saved flag older than five
  minutes and a stop flag older than two minutes are removed from the storage.
\<close>

definition cleanup_stale_flags :: "int \<Rightarrow> sessionStorage \<Rightarrow> sessionStorage" where
  "cleanup_stale_flags now ss =
     (let justSavedTimestamp = just_saved_meeting_timestamp ss;
          justStoppedTimestamp = just_stopped_meeting_timestamp ss;
          ss1 = (if truthy_stamp justSavedTimestamp \<and> age_above now justSavedTimestamp (5 * 60 * 1000)
                 then ss\<lparr>just_saved_meeting_id := None, just_saved_meeting_timestamp := None\<rparr>
                 else ss)
      in if truthy_stamp justStoppedTimestamp \<and> age_above now justStoppedTimestamp (2 * 60 * 1000)
         then ss1\<lparr>just_stopped_meeting_key := None, just_stopped_meeting_timestamp := None\<rparr>
         else ss1)"

text \<open>
  The predicate of \<^verbatim>\<open>meetings.filter\<close>, with the values the scan read from the storage
  before the clean-up.  The scan body runs without interruption, so its readings of
  \<^verbatim>\<open>Date.now()\<close> are one value \<open>now\<close>.
\<close>

definition recent_filter :: "int \<Rightarrow> sessionStorage \<Rightarrow> MeetingMetadata \<Rightarrow> bool" where
  "recent_filter now ss m =
     (let justSavedMeetingId = just_saved_meeting_id ss;
          justStoppedKey = just_stopped_meeting_key ss;
          justStoppedTimestamp = just_stopped_meeting_timestamp ss;
          cutoffTime = now - (7 * 24 * 60 * 60 * 1000);
          secondsAgo = now - (15 * 1000);
          recentStopWindow = (if truthy_stamp justStoppedTimestamp
                              then age_below now justStoppedTimestamp (2 * 60 * 1000) else False)
      in if truthy_str justSavedMeetingId \<and> Some (meetingId m) = justSavedMeetingId then False
         else if (recentStopWindow \<and> truthy_str justStoppedKey) \<and> now - lastUpdated m < 2 * 60 * 1000
         then False
         else
           let isWithinRetention = lastUpdated m > cutoffTime;
               isOldEnough = lastUpdated m < secondsAgo
           in isWithinRetention \<and> isOldEnough)"

text \<open>
  The audio check of one candidate.  \<open>has_audio_checkpoints\<close> is the native command, as a
  function of the folder it is asked about: it answers or throws.
\<close>

definition audio_status :: "(string \<Rightarrow> exn + bool) \<Rightarrow> MeetingMetadata \<Rightarrow> MeetingMetadata" where
  "audio_status has_audio_checkpoints meeting =
     (case folderPath meeting of
        None \<Rightarrow> meeting
      | Some path \<Rightarrow>
          if path = [] then meeting
          else (case has_audio_checkpoints path of
                  Inr hasAudio \<Rightarrow> meeting\<lparr>folderPath := (if hasAudio then Some path else None)\<rparr>
                | Inl e \<Rightarrow> meeting\<lparr>folderPath := None\<rparr>))"

text \<open>
  \<^verbatim>\<open>checkForRecoverableTranscripts\<close>: \<open>getAllMeetings\<close> is the outcome of reading the
  checkpoint store.  Returns the storage and the hook state after the scan.
\<close>

definition checkForRecoverableTranscripts ::
  "int \<Rightarrow> (exn + MeetingMetadata list) \<Rightarrow> (string \<Rightarrow> exn + bool) \<Rightarrow> sessionStorage \<Rightarrow> recovery
   \<Rightarrow> sessionStorage \<times> recovery" where
  "checkForRecoverableTranscripts now getAllMeetings has_audio_checkpoints ss st =
     (case getAllMeetings of
        Inl e \<Rightarrow> (ss, st\<lparr>recoverableMeetings := [], isLoading_rec := False\<rparr>)
      | Inr meetings \<Rightarrow>
          let recentMeetings = filter (recent_filter now ss) meetings;
              meetingsWithAudioStatus = map (audio_status has_audio_checkpoints) recentMeetings
          in (cleanup_stale_flags now ss,
              st\<lparr>recoverableMeetings := meetingsWithAudioStatus, isLoading_rec := False\<rparr>))"

text \<open>A session is listed when an entry with its id and its time of last update is.\<close>

definition listed :: "MeetingMetadata \<Rightarrow> recovery \<Rightarrow> bool" where
  "listed m st = ((meetingId m, lastUpdated m) \<in>
       set (map (\<lambda>x. (meetingId x, lastUpdated x)) (recoverableMeetings st)))"

text \<open>The two protections as the specification names them.\<close>

definition flagged_just_saved :: "sessionStorage \<Rightarrow> MeetingMetadata \<Rightarrow> bool" where
  "flagged_just_saved ss m =
     (truthy_str (just_saved_meeting_id ss) \<and> just_saved_meeting_id ss = Some (meetingId m))"

definition in_just_stopped_grace :: "int \<Rightarrow> sessionStorage \<Rightarrow> MeetingMetadata \<Rightarrow> bool" where
  "in_just_stopped_grace now ss m =
     (truthy_str (just_stopped_meeting_key ss) \<and> truthy_stamp (just_stopped_meeting_timestamp ss) \<and>
      age_below now (just_stopped_meeting_timestamp ss) (2 * 60 * 1000) \<and>
      now - lastUpdated m < 2 * 60 * 1000)"

definition retention_window :: int where
  "retention_window = 7 * 24 * 60 * 60 * 1000"

definition min_age :: int where
  "min_age = 15 * 1000"

text \<open>Example data: an empty storage, an idle hook, a session.\<close>

definition no_flags :: sessionStorage where
  "no_flags = \<lparr>just_saved_meeting_id = None, just_saved_meeting_timestamp = None,
               just_stopped_meeting_key = None, just_stopped_meeting_timestamp = None\<rparr>"

definition idle_recovery :: recovery where
  "idle_recovery = \<lparr>recoverableMeetings = [], isLoading_rec = True, isRecovering = False\<rparr>"

definition session :: "string \<Rightarrow> int \<Rightarrow> string option \<Rightarrow> MeetingMetadata" where
  "session i t p = \<lparr>meetingId = i, title = ''Meeting'', lastUpdated = t, folderPath = p\<rparr>"

subsection \<open>Recovering one meeting\<close>

text \<open>
  A transcript of the checkpoint store.  \<open>id_st\<close> is the text \<^verbatim>\<open>t.id?.toString()\<close> yields,
  \<open>None\<close> when the id is undefined.
\<close>

record StoredTranscript =
  id_st :: "string option"
  text_st :: string
  timestamp_st :: string
  sequenceId :: "int option"
  confidence_st :: "rat option"
  chunk_start_time_st :: "rat option"
  is_partial_st :: "bool option"
  audio_start_time_st :: "rat option"
  audio_end_time_st :: "rat option"
  duration_st :: "rat option"

record FormattedTranscript =
  id_ft :: string
  text_ft :: string
  timestamp_ft :: string
  sequence_id :: int
  chunk_start_time :: "rat option"
  is_partial :: bool
  confidence_ft :: "rat option"
  audio_start_time_ft :: "rat option"
  audio_end_time_ft :: "rat option"
  duration_ft :: "rat option"

record AudioRecoveryStatus =
  status_ar :: string
  chunk_count :: nat
  estimated_duration_seconds :: rat
  audio_file_path :: "string option"
  message_ar :: string

record recover_result =
  success :: bool
  audioRecoveryStatus :: AudioRecoveryStatus
  meetingId_res :: string

text \<open>
  The outcomes of the calls one recovery awaits, in the order of the source, and the
  reading of the clock.  \<open>saveMeeting\<close> yields the \<^verbatim>\<open>meeting_id\<close> of its response.
\<close>

record recovery_calls =
  getMeetingMetadata :: "exn + MeetingMetadata option"
  getTranscripts :: "exn + StoredTranscript list"
  get_meeting_folder_path :: "exn + string option"
  recover_audio_from_checkpoints :: "exn + AudioRecoveryStatus"
  saveMeeting :: "exn + string"
  markMeetingSaved :: "exn + unit"
  cleanup_checkpoints :: "exn + unit"
  date_now :: nat

text \<open>
  The durable effects of a recovery, each entered when its call has returned: the commit
  to permanent storage with its arguments, the mark on the checkpoint, the clean-up of a
  folder.
\<close>

datatype store_event =
    SaveMeeting string "FormattedTranscript list" "string option"
  | MarkMeetingSaved string
  | CleanupCheckpoints string

record recovery_world =
  hook :: recovery
  store_log :: "store_event list"

text \<open>A number as a template literal renders it.\<close>

fun decimal :: "nat \<Rightarrow> string" where
  "decimal n = (if n < 10 then [''0123456789'' ! n]
                else decimal (n div 10) @ [''0123456789'' ! (n mod 10)])"

declare decimal.simps [simp del]

text \<open>\<^verbatim>\<open>a.sequenceId || 0\<close>\<close>

definition sequence_or_zero :: "StoredTranscript \<Rightarrow> int" where
  "sequence_or_zero t = (case sequenceId t of None \<Rightarrow> 0 | Some n \<Rightarrow> n)"

text \<open>\<^verbatim>\<open>loadMeetingTranscripts\<close>: a failed read is logged and gives the empty list.\<close>

definition loadMeetingTranscripts :: "(exn + StoredTranscript list) \<Rightarrow> StoredTranscript list" where
  "loadMeetingTranscripts r =
     (case r of Inr ts \<Rightarrow> sort_key sequence_or_zero ts | Inl e \<Rightarrow> [])"

definition format_transcript :: "nat \<Rightarrow> nat \<Rightarrow> StoredTranscript \<Rightarrow> FormattedTranscript" where
  "format_transcript now index t =
     \<lparr>id_ft = (if truthy_str (id_st t) then the (id_st t) else decimal now @ ''-'' @ decimal index),
      text_ft = text_st t,
      timestamp_ft = timestamp_st t,
      sequence_id = (if sequence_or_zero t \<noteq> 0 then sequence_or_zero t else int index),
      chunk_start_time = chunk_start_time_st t,
      is_partial = (case is_partial_st t of None \<Rightarrow> False | Some b \<Rightarrow> b),
      confidence_ft = confidence_st t,
      audio_start_time_ft = audio_start_time_st t,
      audio_end_time_ft = audio_end_time_st t,
      duration_ft = duration_st t\<rparr>"

definition log_event :: "store_event \<Rightarrow> recovery_world \<Rightarrow> recovery_world" where
  "log_event e w = w\<lparr>store_log := store_log w @ [e]\<rparr>"

definition setIsRecovering :: "bool \<Rightarrow> recovery_world \<Rightarrow> recovery_world" where
  "setIsRecovering b w = w\<lparr>hook := (hook w)\<lparr>isRecovering := b\<rparr>\<rparr>"

text \<open>
  The \<^verbatim>\<open>try\<close> block of \<^verbatim>\<open>recoverMeeting(meetingId)\<close>.  A throw is the result \<open>Inl\<close>;
  the \<^verbatim>\<open>catch\<close> block logs it and throws it again.
\<close>

definition recoverMeeting_try ::
  "string \<Rightarrow> recovery_calls \<Rightarrow> recovery_world \<Rightarrow> (exn + recover_result) \<times> recovery_world" where
  "recoverMeeting_try mid calls w =
     (case getMeetingMetadata calls of
        Inl e \<Rightarrow> (Inl e, w)
      | Inr None \<Rightarrow> (Inl (Error ''Meeting metadata not found''), w)
      | Inr (Some metadata) \<Rightarrow>
          let ts = loadMeetingTranscripts (getTranscripts calls)
          in if length ts = 0
             then (Inl (Error ''No transcripts found for this meeting''), w)
             else
               let folder =
                     (if truthy_str (folderPath metadata) then folderPath metadata
                      else (case get_meeting_folder_path calls of
                              Inr p \<Rightarrow> p | Inl e \<Rightarrow> None));
                   audio =
                     (if truthy_str folder
                      then (case recover_audio_from_checkpoints calls of
                              Inr s \<Rightarrow> s
                            | Inl e \<Rightarrow> \<lparr>status_ar = ''failed'', chunk_count = 0,
                                        estimated_duration_seconds = 0,
                                        audio_file_path = None, message_ar = message_of e\<rparr>)
                      else \<lparr>status_ar = ''none'', chunk_count = 0,
                            estimated_duration_seconds = 0, audio_file_path = None,
                            message_ar = ''No folder path available''\<rparr>);
                   formattedTranscripts =
                     map (\<lambda>(index, t). format_transcript (date_now calls) index t)
                       (enumerate 0 ts)
               in (case saveMeeting calls of
                     Inl e \<Rightarrow> (Inl e, w)
                   | Inr savedMeetingId \<Rightarrow>
                       let w1 = log_event (SaveMeeting (title metadata) formattedTranscripts folder) w
                       in (case markMeetingSaved calls of
                             Inl e \<Rightarrow> (Inl e, w1)
                           | Inr u \<Rightarrow>
                               let w2 = log_event (MarkMeetingSaved mid) w1;
                                   w3 = (if truthy_str folder
                                         then (case cleanup_checkpoints calls of
                                                 Inr u \<Rightarrow> log_event (CleanupCheckpoints (the folder)) w2
                                               | Inl e \<Rightarrow> w2)
                                         else w2);
                                   w4 = w3\<lparr>hook := (hook w3)\<lparr>recoverableMeetings :=
                                          filter (\<lambda>m. meetingId m \<noteq> mid)
                                            (recoverableMeetings (hook w3))\<rparr>\<rparr>
                               in (Inr \<lparr>success = True, audioRecoveryStatus = audio,
                                        meetingId_res = savedMeetingId\<rparr>, w4))))"

text \<open>
  \<^verbatim>\<open>recoverMeeting\<close>: \<open>isRecovering\<close> is set on entry and reset by the \<^verbatim>\<open>finally\<close> block
  on every path.
\<close>

definition recoverMeeting ::
  "string \<Rightarrow> recovery_calls \<Rightarrow> recovery_world \<Rightarrow> (exn + recover_result) \<times> recovery_world" where
  "recoverMeeting mid calls w =
     (case recoverMeeting_try mid calls (setIsRecovering True w) of
        (result, w') \<Rightarrow> (result, setIsRecovering False w'))"

text \<open>Example data for a recovery.\<close>

definition stored :: "string \<Rightarrow> int \<Rightarrow> StoredTranscript" where
  "stored s n = \<lparr>id_st = None, text_st = s, timestamp_st = ''10:00:00'', sequenceId = Some n,
                 confidence_st = None, chunk_start_time_st = None, is_partial_st = None,
                 audio_start_time_st = None, audio_end_time_st = None, duration_st = None\<rparr>"

definition all_calls_succeed :: recovery_calls where
  "all_calls_succeed =
     \<lparr>getMeetingMetadata = Inr (Some (session ''m1'' 1699999000000 (Some ''/rec/m1''))),
      getTranscripts = Inr [stored ''world'' 2, stored ''hello'' 1],
      get_meeting_folder_path = Inr None,
      recover_audio_from_checkpoints = Inl (NonError ''no chunks''),
      saveMeeting = Inr ''meeting-77'',
      markMeetingSaved = Inr (),
      cleanup_checkpoints = Inr (),
      date_now = 1700000000000\<rparr>"

definition world_listing :: "MeetingMetadata list \<Rightarrow> recovery_world" where
  "world_listing ms = \<lparr>hook = \<lparr>recoverableMeetings = ms, isLoading_rec = False, isRecovering = False\<rparr>,
                       store_log = []\<rparr>"

section \<open>Summary polling (SidebarProvider)\<close>

text \<open>
  A value of the backend's JSON, as JavaScript sees it.  Objects are association lists in
  insertion order; the numbers of a summary payload are integers.
\<close>

datatype jsval =
    JUndefined
  | JNull
  | JBool bool
  | JNum int
  | JStr string
  | JArr "jsval list"
  | JObj "(string \<times> jsval) list"

text \<open>
  What \<^verbatim>\<open>api_get_summary\<close> resolves to: \<^verbatim>\<open>{status, data?, error?, meetingName?}\<close>.  The
  fields \<open>data\<close> and \<open>error\<close> carry a suffix.
\<close>

record SummaryResponse =
  status :: string
  data_sr :: jsval
  error_sr :: "string option"
  meetingName :: "string option"

text \<open>
  The handle \<^verbatim>\<open>setInterval\<close> returns, and what the closure of one interval holds.
\<close>

datatype timer = Timer nat

record poll =
  poll_meetingId :: string
  poll_processId :: string
  pollCount :: nat

text \<open>
  \<^verbatim>\<open>activeSummaryPolls\<close> is a JavaScript \<^verbatim>\<open>Map\<close> from meeting ids to interval handles: its
  entries, in the order of insertion.
\<close>

type_synonym polls = "(string \<times> timer) list"

text \<open>\<^verbatim>\<open>new Map(prev).set(meetingId, pollInterval)\<close>\<close>

fun entry_set :: "string \<Rightarrow> timer \<Rightarrow> polls \<Rightarrow> polls" where
  "entry_set k v [] = [(k, v)]"
| "entry_set k v (e # m) = (if fst e = k then (k, v) # m else e # entry_set k v m)"

text \<open>\<^verbatim>\<open>const next = new Map(prev); next.delete(meetingId); return next\<close>\<close>

definition entry_delete :: "string \<Rightarrow> polls \<Rightarrow> polls" where
  "entry_delete k m = filter (\<lambda>e. fst e \<noteq> k) m"

text \<open>
  The provider and the meeting page, as far as the polls go.

  \<open>activeSummaryPolls\<close> is the provider's React state with every update applied.
  \<^verbatim>\<open>startSummaryPolling\<close>, \<^verbatim>\<open>stopSummaryPolling\<close> and the two clean-up functions are
  closures made by a render: what they read as \<^verbatim>\<open>activeSummaryPolls\<close> is the \<^verbatim>\<open>Map\<close> of
  that render, and only the updater functions handed to \<^verbatim>\<open>setActiveSummaryPolls\<close> see
  the current one.  \<open>rendered\<close> is the \<^verbatim>\<open>Map\<close> of the last render, and \<open>changed\<close> says that
  \<^verbatim>\<open>setActiveSummaryPolls\<close> has been called since then: each call makes a new \<^verbatim>\<open>Map\<close>, so
  the next render finds the dependency \<^verbatim>\<open>[activeSummaryPolls]\<close> changed, whatever the
  entries are.  \<open>page_meetingId\<close> is the \<^verbatim>\<open>meetingId\<close> of the mounted meeting page, \<open>None\<close>
  when there is no such page or it has no id.

  \<open>intervals\<close> are the intervals set and not yet cleared (only these fire), \<open>timers_set\<close>
  counts the handles given out, \<open>updates\<close> lists the calls of \<^verbatim>\<open>onUpdate\<close> and
  \<open>summary_requests\<close> the calls of \<^verbatim>\<open>api_get_summary\<close>, each with the interval that made
  it, oldest first.
\<close>

record sidebar =
  activeSummaryPolls :: polls
  rendered :: polls
  changed :: bool
  page_meetingId :: "string option"
  intervals :: "timer \<rightharpoonup> poll"
  timers_set :: nat
  updates :: "(timer \<times> SummaryResponse) list"
  summary_requests :: "timer list"

definition MAX_POLLS :: nat where
  "MAX_POLLS = 200"

text \<open>The period handed to \<^verbatim>\<open>setInterval\<close>, in milliseconds.\<close>

definition POLL_INTERVAL_MS :: nat where
  "POLL_INTERVAL_MS = 5000"
text \<open>
  The timeout message: "summary generation timed out after 15 minutes; try again or check
  the model settings", in the UTF-8 bytes of the source text.
\<close>

definition timeout_message :: string where
  "timeout_message = 
     [CHR 0xE8, CHR 0xA6, CHR 0x81, CHR 0xE7, CHR 0xB4, CHR 0x84, CHR 0xE7, CHR 0x94, CHR
      0x9F, CHR 0xE6, CHR 0x88, CHR 0x90, CHR 0xE3, CHR 0x81, CHR 0x8C, CHR 0x31, CHR 0x35,
      CHR 0xE5, CHR 0x88, CHR 0x86, CHR 0xE3, CHR 0x81, CHR 0xA7, CHR 0xE3, CHR 0x82, CHR
      0xBF, CHR 0xE3, CHR 0x82, CHR 0xA4, CHR 0xE3, CHR 0x83, CHR 0xA0, CHR 0xE3, CHR 0x82,
      CHR 0xA2, CHR 0xE3, CHR 0x82, CHR 0xA6, CHR 0xE3, CHR 0x83, CHR 0x88, CHR 0xE3, CHR
      0x81, CHR 0x97, CHR 0xE3, CHR 0x81, CHR 0xBE, CHR 0xE3, CHR 0x81, CHR 0x97, CHR 0xE3,
      CHR 0x81, CHR 0x9F, CHR 0xE3, CHR 0x80, CHR 0x82, CHR 0xE5, CHR 0x86, CHR 0x8D, CHR
      0xE5, CHR 0xBA, CHR 0xA6, CHR 0xE3, CHR 0x81, CHR 0x8A, CHR 0xE8, CHR 0xA9, CHR 0xA6,
      CHR 0xE3, CHR 0x81, CHR 0x97, CHR 0xE3, CHR 0x81, CHR 0x84, CHR 0xE3, CHR 0x81, CHR
      0x9F, CHR 0xE3, CHR 0x81, CHR 0xA0, CHR 0xE3, CHR 0x81, CHR 0x8F, CHR 0xE3, CHR 0x81,
      CHR 0x8B, CHR 0xE3, CHR 0x80, CHR 0x81, CHR 0xE3, CHR 0x83, CHR 0xA2, CHR 0xE3, CHR
      0x83, CHR 0x87, CHR 0xE3, CHR 0x83, CHR 0xAB, CHR 0xE8, CHR 0xA8, CHR 0xAD, CHR 0xE5,
      CHR 0xAE, CHR 0x9A, CHR 0xE3, CHR 0x82, CHR 0x92, CHR 0xE7, CHR 0xA2, CHR 0xBA, CHR
      0xE8, CHR 0xAA, CHR 0x8D, CHR 0xE3, CHR 0x81, CHR 0x97, CHR 0xE3, CHR 0x81, CHR 0xA6,
      CHR 0xE3, CHR 0x81, CHR 0x8F, CHR 0xE3, CHR 0x81, CHR 0xA0, CHR 0xE3, CHR 0x81, CHR
      0x95, CHR 0xE3, CHR 0x81, CHR 0x84, CHR 0xE3, CHR 0x80, CHR 0x82]"

definition clearInterval :: "timer \<Rightarrow> sidebar \<Rightarrow> sidebar" where
  "clearInterval t sb = sb\<lparr>intervals := (intervals sb)(t := None)\<rparr>"

text \<open>\<^verbatim>\<open>setActiveSummaryPolls(updater)\<close>: the updater is applied to the current \<^verbatim>\<open>Map\<close>.\<close>

definition setActiveSummaryPolls :: "(polls \<Rightarrow> polls) \<Rightarrow> sidebar \<Rightarrow> sidebar" where
  "setActiveSummaryPolls updater sb =
     sb\<lparr>activeSummaryPolls := updater (activeSummaryPolls sb), changed := True\<rparr>"

text \<open>\<^verbatim>\<open>setActiveSummaryPolls(prev => { next.delete(meetingId) })\<close>\<close>

definition delete_poll :: "string \<Rightarrow> sidebar \<Rightarrow> sidebar" where
  "delete_poll mid sb = setActiveSummaryPolls (entry_delete mid) sb"

definition onUpdate :: "timer \<Rightarrow> SummaryResponse \<Rightarrow> sidebar \<Rightarrow> sidebar" where
  "onUpdate t r sb = sb\<lparr>updates := updates sb @ [(t, r)]\<rparr>"

text \<open>
  \<^verbatim>\<open>startSummaryPolling(meetingId, processId, onUpdate)\<close>, as made by a render whose
  \<^verbatim>\<open>activeSummaryPolls\<close> was \<open>seen\<close>: the test \<^verbatim>\<open>has\<close> and the handle it clears come from
  \<open>seen\<close>, the new entry goes into the current \<^verbatim>\<open>Map\<close>.
\<close>

definition startSummaryPolling :: "polls \<Rightarrow> string \<Rightarrow> string \<Rightarrow> sidebar \<Rightarrow> sidebar" where
  "startSummaryPolling seen mid processId sb =
     (let sb1 = (case map_of seen mid of
                   Some existing \<Rightarrow> clearInterval existing sb
                 | None \<Rightarrow> sb);
          pollInterval = Timer (timers_set sb1)
      in setActiveSummaryPolls (entry_set mid pollInterval)
           (sb1\<lparr>intervals := (intervals sb1)(pollInterval \<mapsto>
                   \<lparr>poll_meetingId = mid, poll_processId = processId, pollCount = 0\<rparr>),
                 timers_set := Suc (timers_set sb1)\<rparr>))"
text \<open>
  One run of the interval's callback.  A cleared interval does not fire.  \<open>outcome\<close> is
  what the awaited \<^verbatim>\<open>api_get_summary\<close> gives if the callback gets that far; the callback
  runs to its end before anything else happens.
\<close>

definition interval_fires :: "timer \<Rightarrow> (exn + SummaryResponse) \<Rightarrow> sidebar \<Rightarrow> sidebar" where
  "interval_fires pollInterval outcome sb =
     (case intervals sb pollInterval of
        None \<Rightarrow> sb
      | Some p \<Rightarrow>
          let n = pollCount p + 1;
              mid = poll_meetingId p;
              sb1 = sb\<lparr>intervals := (intervals sb)(pollInterval \<mapsto> p\<lparr>pollCount := n\<rparr>)\<rparr>
          in if n \<ge> MAX_POLLS
             then onUpdate pollInterval
                    \<lparr>status = ''error'', data_sr = JUndefined, error_sr = Some timeout_message,
                     meetingName = None\<rparr>
                    (delete_poll mid (clearInterval pollInterval sb1))
             else
               let sb2 = sb1\<lparr>summary_requests := summary_requests sb1 @ [pollInterval]\<rparr>
               in (case outcome of
                     Inr result \<Rightarrow>
                       let sb3 = onUpdate pollInterval result sb2
                       in if status result = ''completed'' \<or> status result = ''error'' \<or>
                             status result = ''failed'' \<or> status result = ''cancelled''
                          then delete_poll mid (clearInterval pollInterval sb3)
                          else if status result = ''idle'' \<and> n > 1
                          then delete_poll mid (clearInterval pollInterval sb3)
                          else sb3
                   | Inl e \<Rightarrow>
                       delete_poll mid (clearInterval pollInterval
                         (onUpdate pollInterval
                            \<lparr>status = ''error'', data_sr = JUndefined,
                             error_sr = Some (message_of e), meetingName = None\<rparr> sb2))))"

text \<open>
  \<^verbatim>\<open>stopSummaryPolling(meetingId)\<close>, as made by a render whose \<^verbatim>\<open>activeSummaryPolls\<close> was
  \<open>seen\<close>: the handle is looked up in \<open>seen\<close>; when there is one (a handle is a positive
  number, so it passes the test \<^verbatim>\<open>if (pollInterval)\<close>) it is cleared and the meeting is
  deleted from the current \<^verbatim>\<open>Map\<close>.
\<close>

definition stopSummaryPolling :: "polls \<Rightarrow> string \<Rightarrow> sidebar \<Rightarrow> sidebar" where
  "stopSummaryPolling seen mid sb =
     (case map_of seen mid of
        Some pollInterval \<Rightarrow> delete_poll mid (clearInterval pollInterval sb)
      | None \<Rightarrow> sb)"

text \<open>
  The clean-up of the provider's effect, with the dependency \<^verbatim>\<open>[activeSummaryPolls]\<close>:
  \<^verbatim>\<open>activeSummaryPolls.forEach(interval => clearInterval(interval))\<close>, over the \<^verbatim>\<open>Map\<close> of
  the render that set the effect up.
\<close>

definition provider_cleanup :: "polls \<Rightarrow> sidebar \<Rightarrow> sidebar" where
  "provider_cleanup seen sb = fold (\<lambda>e. clearInterval (snd e)) seen sb"

text \<open>
  The clean-up of the page's effect, with the dependencies
  \<^verbatim>\<open>[meetingId, stopSummaryPolling]\<close>: \<^verbatim>\<open>if (meetingId) { stopSummaryPolling(meetingId) }\<close>,
  with the \<^verbatim>\<open>meetingId\<close> and the \<^verbatim>\<open>stopSummaryPolling\<close> of the render that set the effect
  up.
\<close>

definition page_cleanup :: "string option \<Rightarrow> polls \<Rightarrow> sidebar \<Rightarrow> sidebar" where
  "page_cleanup meetingId_seen seen sb =
     (case meetingId_seen of
        Some mid \<Rightarrow> if mid \<noteq> [] then stopSummaryPolling seen mid sb else sb
      | None \<Rightarrow> sb)"

text \<open>
  A render in which the page has the meeting id \<open>meetingId_now\<close>, and the effects after
  it.  The callbacks made by this render read the current \<^verbatim>\<open>Map\<close>.  An effect whose
  dependencies have changed is set up again, and before that the clean-up of the render
  before runs: the provider's when \<^verbatim>\<open>setActiveSummaryPolls\<close> has been called since that
  render, the page's when that is so (\<^verbatim>\<open>stopSummaryPolling\<close> is then a new function) or
  when the meeting id of the page has changed.  An update made by a clean-up is left for
  the next render.
\<close>

definition rerender :: "string option \<Rightarrow> sidebar \<Rightarrow> sidebar" where
  "rerender meetingId_now sb =
     (let seen = rendered sb;
          sb1 = sb\<lparr>rendered := activeSummaryPolls sb, changed := False,
                   page_meetingId := meetingId_now\<rparr>;
          sb2 = (if changed sb then provider_cleanup seen sb1 else sb1)
      in if changed sb \<or> page_meetingId sb \<noteq> meetingId_now
         then page_cleanup (page_meetingId sb) seen sb2
         else sb2)"

text \<open>
  What happens to the provider, and a sequence of it: a call of the \<^verbatim>\<open>startSummaryPolling\<close>
  or the \<^verbatim>\<open>stopSummaryPolling\<close> of the last render, a firing of an interval, a render of
  the same page, and a render in which the page shows another meeting, or none.
\<close>

datatype poll_event =
    Start string string
  | Fires timer "exn + SummaryResponse"
  | Stop string
  | Render
  | Navigate "string option"

fun poll_step :: "poll_event \<Rightarrow> sidebar \<Rightarrow> sidebar" where
  "poll_step (Start mid processId) sb = startSummaryPolling (rendered sb) mid processId sb"
| "poll_step (Fires t outcome) sb = interval_fires t outcome sb"
| "poll_step (Stop mid) sb = stopSummaryPolling (rendered sb) mid sb"
| "poll_step Render sb = rerender (page_meetingId sb) sb"
| "poll_step (Navigate meetingId_now) sb = rerender meetingId_now sb"

fun poll_run :: "poll_event list \<Rightarrow> sidebar \<Rightarrow> sidebar" where
  "poll_run [] sb = sb"
| "poll_run (e # es) sb = poll_run es (poll_step e sb)"

text \<open>
  The provider as it is mounted: \<^verbatim>\<open>useState(new Map())\<close>, no interval set, no meeting page.
\<close>

definition initial_sidebar :: sidebar where
  "initial_sidebar = \<lparr>activeSummaryPolls = [], rendered = [], changed = False,
                       page_meetingId = None, intervals = Map.empty, timers_set = 0,
                       updates = [], summary_requests = []\<rparr>"

text \<open>Consecutive firings of one interval, each with its outcome.\<close>

fun fires_seq :: "timer \<Rightarrow> (exn + SummaryResponse) list \<Rightarrow> sidebar \<Rightarrow> sidebar" where
  "fires_seq t [] sb = sb"
| "fires_seq t (outcome # outcomes) sb = fires_seq t outcomes (interval_fires t outcome sb)"

text \<open>
  The outcome of the \<open>n\<close>-th poll lets the loop go on: a response whose status is none of
  the four final ones, and not \<^verbatim>\<open>idle\<close> after the first poll.
\<close>

definition goes_on :: "nat \<Rightarrow> (exn + SummaryResponse) \<Rightarrow> bool" where
  "goes_on n outcome =
     (case outcome of
        Inl e \<Rightarrow> False
      | Inr r \<Rightarrow> status r \<noteq> ''completed'' \<and> status r \<noteq> ''error'' \<and> status r \<noteq> ''failed'' \<and>
                 status r \<noteq> ''cancelled'' \<and> (status r \<noteq> ''idle'' \<or> n \<le> 1))"


text \<open>The intervals of a meeting that can still fire.\<close>

definition active_polls :: "sidebar \<Rightarrow> string \<Rightarrow> timer set" where
  "active_polls sb mid = {t. \<exists>p. intervals sb t = Some p \<and> poll_meetingId p = mid}"

definition processing_response :: SummaryResponse where
  "processing_response = \<lparr>status = ''processing'', data_sr = JUndefined, error_sr = None,
                            meetingName = None\<rparr>"

definition timeout_response :: SummaryResponse where
  "timeout_response = \<lparr>status = ''error'', data_sr = JUndefined, error_sr = Some timeout_message,
                         meetingName = None\<rparr>"

section \<open>Summary generation (useSummaryGeneration.ts)\<close>

subsection \<open>The texts of the hook\<close>

text \<open>
  The Japanese literals of the source, in their UTF-8 bytes, each with its meaning.
\<close>

text \<open>there is no transcript text; add text first\<close>

definition no_transcript_message :: string where
  "no_transcript_message =
     [CHR 0xE6, CHR 0x96, CHR 0x87, CHR 0xE5, CHR 0xAD, CHR 0x97, CHR 0xE8, CHR 0xB5, CHR
      0xB7, CHR 0xE3, CHR 0x81, CHR 0x93, CHR 0xE3, CHR 0x81, CHR 0x97, CHR 0xE3, CHR 0x83,
      CHR 0x86, CHR 0xE3, CHR 0x82, CHR 0xAD, CHR 0xE3, CHR 0x82, CHR 0xB9, CHR 0xE3, CHR
      0x83, CHR 0x88, CHR 0xE3, CHR 0x81, CHR 0x8C, CHR 0xE3, CHR 0x81, CHR 0x82, CHR 0xE3,
      CHR 0x82, CHR 0x8A, CHR 0xE3, CHR 0x81, CHR 0xBE, CHR 0xE3, CHR 0x81, CHR 0x9B, CHR
      0xE3, CHR 0x82, CHR 0x93, CHR 0xE3, CHR 0x80, CHR 0x82, CHR 0xE5, CHR 0x85, CHR 0x88,
      CHR 0xE3, CHR 0x81, CHR 0xAB, CHR 0xE3, CHR 0x83, CHR 0x86, CHR 0xE3, CHR 0x82, CHR
      0xAD, CHR 0xE3, CHR 0x82, CHR 0xB9, CHR 0xE3, CHR 0x83, CHR 0x88, CHR 0xE3, CHR 0x82,
      CHR 0x92, CHR 0xE8, CHR 0xBF, CHR 0xBD, CHR 0xE5, CHR 0x8A, CHR 0xA0, CHR 0xE3, CHR
      0x81, CHR 0x97, CHR 0xE3, CHR 0x81, CHR 0xA6, CHR 0xE3, CHR 0x81, CHR 0x8F, CHR 0xE3,
      CHR 0x81, CHR 0xA0, CHR 0xE3, CHR 0x81, CHR 0x95, CHR 0xE3, CHR 0x81, CHR 0x84, CHR
      0xE3, CHR 0x80, CHR 0x82]"

text \<open>\<open>summary\<close> with its object particle\<close>

definition summary_progress_prefix :: string where
  "summary_progress_prefix =
     [CHR 0xE8, CHR 0xA6, CHR 0x81, CHR 0xE7, CHR 0xB4, CHR 0x84, CHR 0xE3, CHR 0x82, CHR
      0x92]"

text \<open>\<open>in progress...\<close>\<close>

definition summary_progress_suffix :: string where
  "summary_progress_suffix =
     [CHR 0xE4, CHR 0xB8, CHR 0xAD, CHR ''.'', CHR ''.'', CHR ''.'']"

text \<open>\<open>regeneration\<close>\<close>

definition word_regeneration :: string where
  "word_regeneration =
     [CHR 0xE5, CHR 0x86, CHR 0x8D, CHR 0xE7, CHR 0x94, CHR 0x9F, CHR 0xE6, CHR 0x88, CHR
      0x90]"

text \<open>\<open>generation\<close>\<close>

definition word_generation :: string where
  "word_generation =
     [CHR 0xE7, CHR 0x94, CHR 0x9F, CHR 0xE6, CHR 0x88, CHR 0x90]"

text \<open>\<open> in use\<close>\<close>

definition using_suffix :: string where
  "using_suffix =
     [CHR '' '', CHR 0xE3, CHR 0x82, CHR 0x92, CHR 0xE4, CHR 0xBD, CHR 0xBF, CHR 0xE7, CHR
      0x94, CHR 0xA8]"

text \<open>\<open>of the summary\<close>\<close>

definition summary_of_prefix :: string where
  "summary_of_prefix =
     [CHR 0xE8, CHR 0xA6, CHR 0x81, CHR 0xE7, CHR 0xB4, CHR 0x84, CHR 0xE3, CHR 0x81, CHR
      0xAE]"

text \<open>\<open>has failed\<close>\<close>

definition failed_suffix :: string where
  "failed_suffix =
     [CHR 0xE3, CHR 0x81, CHR 0xAB, CHR 0xE5, CHR 0xA4, CHR 0xB1, CHR 0xE6, CHR 0x95, CHR
      0x97, CHR 0xE3, CHR 0x81, CHR 0x97, CHR 0xE3, CHR 0x81, CHR 0xBE, CHR 0xE3, CHR 0x81,
      CHR 0x97, CHR 0xE3, CHR 0x81, CHR 0x9F]"

text \<open>\<open>. The previous summary has been restored.\<close>\<close>

definition restored_suffix :: string where
  "restored_suffix =
     [CHR 0xE3, CHR 0x80, CHR 0x82, CHR 0xE4, CHR 0xBB, CHR 0xA5, CHR 0xE5, CHR 0x89, CHR
      0x8D, CHR 0xE3, CHR 0x81, CHR 0xAE, CHR 0xE8, CHR 0xA6, CHR 0x81, CHR 0xE7, CHR 0xB4,
      CHR 0x84, CHR 0xE3, CHR 0x82, CHR 0x92, CHR 0xE5, CHR 0xBE, CHR 0xA9, CHR 0xE5, CHR
      0x85, CHR 0x83, CHR 0xE3, CHR 0x81, CHR 0x97, CHR 0xE3, CHR 0x81, CHR 0xBE, CHR 0xE3,
      CHR 0x81, CHR 0x97, CHR 0xE3, CHR 0x81, CHR 0x9F, CHR 0xE3, CHR 0x80, CHR 0x82]"

text \<open>cannot reach the LLM service; check that Ollama or the configured provider is running\<close>

definition connection_refused_description :: string where
  "connection_refused_description =
     [CHR ''L'', CHR ''L'', CHR ''M'', CHR 0xE3, CHR 0x82, CHR 0xB5, CHR 0xE3, CHR 0x83, CHR
      0xBC, CHR 0xE3, CHR 0x83, CHR 0x93, CHR 0xE3, CHR 0x82, CHR 0xB9, CHR 0xE3, CHR 0x81,
      CHR 0xAB, CHR 0xE6, CHR 0x8E, CHR 0xA5, CHR 0xE7, CHR 0xB6, CHR 0x9A, CHR 0xE3, CHR
      0x81, CHR 0xA7, CHR 0xE3, CHR 0x81, CHR 0x8D, CHR 0xE3, CHR 0x81, CHR 0xBE, CHR 0xE3,
      CHR 0x81, CHR 0x9B, CHR 0xE3, CHR 0x82, CHR 0x93, CHR 0xE3, CHR 0x80, CHR 0x82, CHR
      ''O'', CHR ''l'', CHR ''l'', CHR ''a'', CHR ''m'', CHR ''a'', CHR 0xE3, CHR 0x81, CHR
      0xBE, CHR 0xE3, CHR 0x81, CHR 0x9F, CHR 0xE3, CHR 0x81, CHR 0xAF, CHR 0xE8, CHR 0xA8,
      CHR 0xAD, CHR 0xE5, CHR 0xAE, CHR 0x9A, CHR 0xE6, CHR 0xB8, CHR 0x88, CHR 0xE3, CHR
      0x81, CHR 0xBF, CHR 0xE3, CHR 0x81, CHR 0xAE, CHR ''L'', CHR ''L'', CHR ''M'', CHR 0xE3,
      CHR 0x83, CHR 0x97, CHR 0xE3, CHR 0x83, CHR 0xAD, CHR 0xE3, CHR 0x83, CHR 0x90, CHR
      0xE3, CHR 0x82, CHR 0xA4, CHR 0xE3, CHR 0x83, CHR 0x80, CHR 0xE3, CHR 0x83, CHR 0xBC,
      CHR 0xE3, CHR 0x81, CHR 0x8C, CHR 0xE8, CHR 0xB5, CHR 0xB7, CHR 0xE5, CHR 0x8B, CHR
      0x95, CHR 0xE3, CHR 0x81, CHR 0x97, CHR 0xE3, CHR 0x81, CHR 0xA6, CHR 0xE3, CHR 0x81,
      CHR 0x84, CHR 0xE3, CHR 0x82, CHR 0x8B, CHR 0xE3, CHR 0x81, CHR 0x93, CHR 0xE3, CHR
      0x81, CHR 0xA8, CHR 0xE3, CHR 0x82, CHR 0x92, CHR 0xE7, CHR 0xA2, CHR 0xBA, CHR 0xE8,
      CHR 0xAA, CHR 0x8D, CHR 0xE3, CHR 0x81, CHR 0x97, CHR 0xE3, CHR 0x81, CHR 0xA6, CHR
      0xE3, CHR 0x81, CHR 0x8F, CHR 0xE3, CHR 0x81, CHR 0xA0, CHR 0xE3, CHR 0x81, CHR 0x95,
      CHR 0xE3, CHR 0x81, CHR 0x84, CHR 0xE3, CHR 0x80, CHR 0x82]"

text \<open>\<open>summary generation is complete\<close>\<close>

definition completed_title :: string where
  "completed_title =
     [CHR 0xE8, CHR 0xA6, CHR 0x81, CHR 0xE7, CHR 0xB4, CHR 0x84, CHR 0xE3, CHR 0x81, CHR
      0xAE, CHR 0xE7, CHR 0x94, CHR 0x9F, CHR 0xE6, CHR 0x88, CHR 0x90, CHR 0xE3, CHR 0x81,
      CHR 0x8C, CHR 0xE5, CHR 0xAE, CHR 0x8C, CHR 0xE4, CHR 0xBA, CHR 0x86, CHR 0xE3, CHR
      0x81, CHR 0x97, CHR 0xE3, CHR 0x81, CHR 0xBE, CHR 0xE3, CHR 0x81, CHR 0x97, CHR 0xE3,
      CHR 0x81, CHR 0x9F, CHR 0xEF, CHR 0xBC, CHR 0x81]"

text \<open>\<open>the meeting summary is ready\<close>\<close>

definition completed_description :: string where
  "completed_description =
     [CHR 0xE4, CHR 0xBC, CHR 0x9A, CHR 0xE8, CHR 0xAD, CHR 0xB0, CHR 0xE3, CHR 0x81, CHR
      0xAE, CHR 0xE8, CHR 0xA6, CHR 0x81, CHR 0xE7, CHR 0xB4, CHR 0x84, CHR 0xE3, CHR 0x81,
      CHR 0x8C, CHR 0xE6, CHR 0xBA, CHR 0x96, CHR 0xE5, CHR 0x82, CHR 0x99, CHR 0xE3, CHR
      0x81, CHR 0xA7, CHR 0xE3, CHR 0x81, CHR 0x8D, CHR 0xE3, CHR 0x81, CHR 0xBE, CHR 0xE3,
      CHR 0x81, CHR 0x97, CHR 0xE3, CHR 0x81, CHR 0x9F]"

text \<open>summary generation completed but empty content was returned\<close>

definition empty_content_message :: string where
  "empty_content_message =
     [CHR 0xE8, CHR 0xA6, CHR 0x81, CHR 0xE7, CHR 0xB4, CHR 0x84, CHR 0xE3, CHR 0x81, CHR
      0xAE, CHR 0xE7, CHR 0x94, CHR 0x9F, CHR 0xE6, CHR 0x88, CHR 0x90, CHR 0xE3, CHR 0x81,
      CHR 0xAF, CHR 0xE5, CHR 0xAE, CHR 0x8C, CHR 0xE4, CHR 0xBA, CHR 0x86, CHR 0xE3, CHR
      0x81, CHR 0x97, CHR 0xE3, CHR 0x81, CHR 0xBE, CHR 0xE3, CHR 0x81, CHR 0x97, CHR 0xE3,
      CHR 0x81, CHR 0x9F, CHR 0xE3, CHR 0x81, CHR 0x8C, CHR 0xE3, CHR 0x80, CHR 0x81, CHR
      0xE7, CHR 0xA9, CHR 0xBA, CHR 0xE3, CHR 0x81, CHR 0xAE, CHR 0xE3, CHR 0x82, CHR 0xB3,
      CHR 0xE3, CHR 0x83, CHR 0xB3, CHR 0xE3, CHR 0x83, CHR 0x86, CHR 0xE3, CHR 0x83, CHR
      0xB3, CHR 0xE3, CHR 0x83, CHR 0x84, CHR 0xE3, CHR 0x81, CHR 0x8C, CHR 0xE8, CHR 0xBF,
      CHR 0x94, CHR 0xE3, CHR 0x81, CHR 0x95, CHR 0xE3, CHR 0x82, CHR 0x8C, CHR 0xE3, CHR
      0x81, CHR 0xBE, CHR 0xE3, CHR 0x81, CHR 0x97, CHR 0xE3, CHR 0x81, CHR 0x9F, CHR 0xE3,
      CHR 0x80, CHR 0x82]"



subsection \<open>JavaScript values\<close>

text \<open>Truthiness.\<close>

fun truthy :: "jsval \<Rightarrow> bool" where
  "truthy JUndefined = False"
| "truthy JNull = False"
| "truthy (JBool b) = b"
| "truthy (JNum n) = (n \<noteq> 0)"
| "truthy (JStr s) = (s \<noteq> [])"
| "truthy (JArr xs) = True"
| "truthy (JObj kvs) = True"

definition TypeError :: exn where
  "TypeError = Error ''TypeError''"

text \<open>The own enumerable properties of a value, as \<^verbatim>\<open>Object.entries\<close> and a spread list them.\<close>

fun entries :: "jsval \<Rightarrow> (string \<times> jsval) list" where
  "entries (JObj kvs) = kvs"
| "entries (JArr xs) = map (\<lambda>(i, x). (decimal i, x)) (enumerate 0 xs)"
| "entries (JStr s) = map (\<lambda>(i, c). (decimal i, JStr [c])) (enumerate 0 s)"
| "entries v = []"

text \<open>
  Reading a property: a throw on \<^verbatim>\<open>null\<close> and \<^verbatim>\<open>undefined\<close>, \<^verbatim>\<open>undefined\<close> for a
  property that is not there.  Methods are not properties of the model.
\<close>

fun get_prop :: "jsval \<Rightarrow> string \<Rightarrow> exn + jsval" where
  "get_prop JUndefined k = Inl TypeError"
| "get_prop JNull k = Inl TypeError"
| "get_prop (JArr xs) k =
     Inr (if k = ''length'' then JNum (int (length xs))
          else (case map_of (entries (JArr xs)) k of Some v \<Rightarrow> v | None \<Rightarrow> JUndefined))"
| "get_prop (JStr s) k =
     Inr (if k = ''length'' then JNum (int (length s))
          else (case map_of (entries (JStr s)) k of Some v \<Rightarrow> v | None \<Rightarrow> JUndefined))"
| "get_prop v k = Inr (case map_of (entries v) k of Some v \<Rightarrow> v | None \<Rightarrow> JUndefined)"

text \<open>Reading a property of a value known to be neither \<^verbatim>\<open>null\<close> nor \<^verbatim>\<open>undefined\<close>.\<close>

definition field :: "jsval \<Rightarrow> string \<Rightarrow> jsval" where
  "field v k = (case get_prop v k of Inr x \<Rightarrow> x | Inl e \<Rightarrow> JUndefined)"

text \<open>Assigning a property of an object: in place when it is there, at the end otherwise.\<close>

fun set_prop :: "string \<Rightarrow> jsval \<Rightarrow> (string \<times> jsval) list \<Rightarrow> (string \<times> jsval) list" where
  "set_prop k v [] = [(k, v)]"
| "set_prop k v ((k', v') # kvs) = (if k' = k then (k, v) # kvs else (k', v') # set_prop k v kvs)"

text \<open>\<^verbatim>\<open>trim\<close>, for the white space of ASCII.\<close>

definition is_space :: "char \<Rightarrow> bool" where
  "is_space c = (c = CHR '' '' \<or> c = CHR 0x09 \<or> c = CHR 0x0A \<or> c = CHR 0x0B \<or> c = CHR 0x0C \<or>
                 c = CHR 0x0D)"

definition trim :: "string \<Rightarrow> string" where
  "trim s = rev (dropWhile is_space (rev (dropWhile is_space s)))"

text \<open>\<^verbatim>\<open>s.includes(sub)\<close>\<close>

fun starts_with :: "string \<Rightarrow> string \<Rightarrow> bool" where
  "starts_with s [] = True"
| "starts_with [] (c # sub) = False"
| "starts_with (d # s) (c # sub) = (d = c \<and> starts_with s sub)"

fun includes_str :: "string \<Rightarrow> string \<Rightarrow> bool" where
  "includes_str [] sub = (sub = [])"
| "includes_str (c # s) sub = (starts_with (c # s) sub \<or> includes_str s sub)"

text \<open>\<^verbatim>\<open>toLowerCase\<close>, for the letters of ASCII.\<close>

definition toLowerCase :: "string \<Rightarrow> string" where
  "toLowerCase s =
     map (\<lambda>c. case map_of (zip ''ABCDEFGHIJKLMNOPQRSTUVWXYZ'' ''abcdefghijklmnopqrstuvwxyz'') c of
                Some l \<Rightarrow> l | None \<Rightarrow> c) s"

subsection \<open>The state of the hook\<close>

datatype SummaryStatus = idle | processing | summarizing | regenerating | completed | error

text \<open>
  What the hook does to the world outside its own state, oldest first: a toast with its
  title and description, a call of a callback of the parent, an analytics event (with the
  provider, the model, and for a completion the success flag and the error text), and a
  throw that leaves the asynchronous callback.  A toast and an analytics call return
  without a throw.
\<close>

datatype effect =
    ToastInfo string string
  | ToastError string string
  | ToastSuccess string string
  | UpdateMeetingTitle jsval
  | OnMeetingUpdated
  | OnOpenModelSettings
  | TrackSummaryGenerationStarted string string
  | TrackCustomPromptUsed
  | TrackSummaryGenerationCompleted string string bool "string option"
  | Unhandled exn

text \<open>
  \<open>aiSummary\<close> is the parent's state behind \<^verbatim>\<open>setAiSummary\<close>: the summary on display,
  \<^verbatim>\<open>null\<close> when there is none.
\<close>

record summary_hook =
  summaryStatus :: SummaryStatus
  summaryError :: "string option"
  originalTranscript :: string
  aiSummary :: jsval
  effects :: "effect list"

text \<open>The props of the hook that the modelled functions read.\<close>

record props =
  meeting_id :: string
  provider :: string
  model :: string
  selectedTemplate :: string
  onMeetingUpdated :: bool
  onOpenModelSettings :: bool

definition emit :: "effect list \<Rightarrow> summary_hook \<Rightarrow> summary_hook" where
  "emit es st = st\<lparr>effects := effects st @ es\<rparr>"

subsection \<open>The callback given to the poll loop\<close>

text \<open>
  \<^verbatim>\<open>existingSummary?.data\<close> after the reload with \<^verbatim>\<open>api_get_summary\<close>: the stored summary
  when the call resolves with data, nothing when it resolves without or throws (both
  callers catch the throw and go on as without data).
\<close>

definition reloaded :: "(exn + SummaryResponse option) \<Rightarrow> jsval option" where
  "reloaded api_get_summary =
     (case api_get_summary of
        Inr (Some existingSummary) \<Rightarrow>
          if truthy (data_sr existingSummary) then Some (data_sr existingSummary) else None
      | Inr None \<Rightarrow> None
      | Inl e \<Rightarrow> None)"

text \<open>
  The default error text and the title of the error toast: the generation, or the
  regeneration, of the summary has failed.
\<close>

definition failed_text :: "bool \<Rightarrow> string" where
  "failed_text isRegeneration =
     summary_of_prefix @ (if isRegeneration then word_regeneration else word_generation) @ failed_suffix"

text \<open>\<^verbatim>\<open>pollingResult.error || ...\<close>\<close>

definition errorMessage_of :: "bool \<Rightarrow> SummaryResponse \<Rightarrow> string" where
  "errorMessage_of isRegeneration pollingResult =
     (if truthy_str (error_sr pollingResult) then the (error_sr pollingResult)
      else failed_text isRegeneration)"

definition isModelRequiredError :: "string \<Rightarrow> bool" where
  "isModelRequiredError errorMessage =
     (includes_str errorMessage ''model is required'' \<or>
      includes_str errorMessage ''\"model\":\"required\"'' \<or>
      (includes_str (toLowerCase errorMessage) ''model'' \<and>
       includes_str (toLowerCase errorMessage) ''required''))"

text \<open>The branch for the status \<^verbatim>\<open>cancelled\<close>.\<close>

definition on_cancelled :: "(exn + SummaryResponse option) \<Rightarrow> summary_hook \<Rightarrow> summary_hook" where
  "on_cancelled api_get_summary st =
     (let st1 = (case reloaded api_get_summary of
                   Some existing \<Rightarrow> st\<lparr>aiSummary := existing, summaryStatus := completed\<rparr>
                 | None \<Rightarrow> st\<lparr>summaryStatus := idle\<rparr>)
      in st1\<lparr>summaryError := None\<rparr>)"

text \<open>The branch for the statuses \<^verbatim>\<open>error\<close> and \<^verbatim>\<open>failed\<close>.\<close>

definition on_error ::
  "props \<Rightarrow> bool \<Rightarrow> (exn + SummaryResponse option) \<Rightarrow> SummaryResponse \<Rightarrow> summary_hook \<Rightarrow> summary_hook" where
  "on_error p isRegeneration api_get_summary pollingResult st =
     (let errorMessage = errorMessage_of isRegeneration pollingResult
      in case (if isRegeneration then reloaded api_get_summary else None) of
           Some existing \<Rightarrow>
             emit [ToastError (failed_text True) (errorMessage @ restored_suffix),
                   TrackSummaryGenerationCompleted (provider p) (model p) False (Some errorMessage)]
               (st\<lparr>aiSummary := existing, summaryStatus := completed, summaryError := None\<rparr>)
         | None \<Rightarrow>
             emit ([ToastError (failed_text isRegeneration)
                      (if includes_str errorMessage ''Connection refused''
                       then connection_refused_description else errorMessage)] @
                   (if isModelRequiredError errorMessage \<and> onOpenModelSettings p
                    then [OnOpenModelSettings] else []) @
                   [TrackSummaryGenerationCompleted (provider p) (model p) False (Some errorMessage)])
               (st\<lparr>summaryError := Some errorMessage, summaryStatus := error\<rparr>))"

text \<open>
  The test of one section in \<^verbatim>\<open>summarySections.every\<close>:
  \<^verbatim>\<open>!section.blocks || section.blocks.length === 0\<close>.
\<close>

definition section_empty :: "jsval \<Rightarrow> exn + bool" where
  "section_empty section =
     (case get_prop section ''blocks'' of
        Inl e \<Rightarrow> Inl e
      | Inr blocks \<Rightarrow>
          if \<not> truthy blocks then Inr True
          else Inr (field blocks ''length'' = JNum 0))"

text \<open>\<^verbatim>\<open>every\<close> stops at the first section that is not empty.\<close>

fun every_empty :: "jsval list \<Rightarrow> exn + bool" where
  "every_empty [] = Inr True"
| "every_empty (section # sections) =
     (case section_empty section of
        Inl e \<Rightarrow> Inl e
      | Inr False \<Rightarrow> Inr False
      | Inr True \<Rightarrow> every_empty sections)"

text \<open>\<^verbatim>\<open>Object.entries(pollingResult.data).filter(([key]) => key !== 'MeetingName')\<close>\<close>

definition summarySections :: "jsval \<Rightarrow> (string \<times> jsval) list" where
  "summarySections d = filter (\<lambda>(key, section). key \<noteq> ''MeetingName'') (entries d)"

text \<open>\<^verbatim>\<open>typeof v === 'object'\<close> for a value that is not \<^verbatim>\<open>null\<close>.\<close>

fun is_object :: "jsval \<Rightarrow> bool" where
  "is_object (JObj kvs) = True"
| "is_object (JArr xs) = True"
| "is_object v = False"

text \<open>
  A key as the name of a property.  An array or an object in the place of a key gets one
  fixed name in the model.
\<close>

fun key_string :: "jsval \<Rightarrow> string" where
  "key_string (JStr k) = k"
| "key_string (JNum n) = (if n < 0 then ''-'' @ decimal (nat (- n)) else decimal (nat n))"
| "key_string (JBool b) = (if b then ''true'' else ''false'')"
| "key_string JNull = ''null''"
| "key_string JUndefined = ''undefined''"
| "key_string (JArr xs) = ''[object Array]''"
| "key_string (JObj kvs) = ''[object Object]''"

text \<open>\<^verbatim>\<open>for (const key of sectionKeys)\<close>: what the loop runs over, or the throw.\<close>

fun iterate :: "jsval \<Rightarrow> exn + jsval list" where
  "iterate (JArr xs) = Inr xs"
| "iterate (JStr s) = Inr (map (\<lambda>c. JStr [c]) s)"
| "iterate v = Inl TypeError"

text \<open>
  One block of a legacy section: its own fields, the colour, and the trimmed content.
  \<^verbatim>\<open>block?.content?.trim()\<close> throws when the content is neither a string nor absent.
\<close>

definition format_block :: "jsval \<Rightarrow> exn + jsval" where
  "format_block block =
     (let content =
            (if block = JNull \<or> block = JUndefined then Inr JUndefined
             else (case field block ''content'' of
                     JNull \<Rightarrow> Inr JUndefined
                   | JUndefined \<Rightarrow> Inr JUndefined
                   | JStr s \<Rightarrow> Inr (JStr (trim s))
                   | other \<Rightarrow> Inl TypeError))
      in case content of
           Inl e \<Rightarrow> Inl e
         | Inr c \<Rightarrow>
             Inr (JObj (set_prop ''content'' (if truthy c then c else JStr [])
                         (set_prop ''color'' (JStr ''default'') (entries block)))))"

fun format_blocks :: "jsval list \<Rightarrow> exn + jsval list" where
  "format_blocks [] = Inr []"
| "format_blocks (block # blocks) =
     (case format_block block of
        Inl e \<Rightarrow> Inl e
      | Inr b \<Rightarrow> (case format_blocks blocks of Inl e \<Rightarrow> Inl e | Inr bs \<Rightarrow> Inr (b # bs)))"

text \<open>
  The body of the loop for one key: the section is taken over when it is an object with
  a title and blocks; a throw while its blocks are formatted is caught and the section is
  left out.
\<close>

definition format_section ::
  "(string \<times> jsval) list \<Rightarrow> jsval \<Rightarrow> (string \<times> jsval) list \<Rightarrow> (string \<times> jsval) list" where
  "format_section summaryData key formattedSummary =
     (let section = field (JObj summaryData) (key_string key)
      in if truthy section \<and> is_object section \<and>
            ''title'' \<in> fst ` set (entries section) \<and> ''blocks'' \<in> fst ` set (entries section)
         then
           let section_title = (if truthy (field section ''title'') then field section ''title'' else key)
           in (case field section ''blocks'' of
                 JArr blocks \<Rightarrow>
                   (case format_blocks blocks of
                      Inr bs \<Rightarrow> set_prop (key_string key)
                                  (JObj [(''title'', section_title), (''blocks'', JArr bs)]) formattedSummary
                    | Inl e \<Rightarrow> formattedSummary)
               | other \<Rightarrow> set_prop (key_string key)
                            (JObj [(''title'', section_title), (''blocks'', JArr [])]) formattedSummary)
         else formattedSummary)"

text \<open>The legacy summary put on display, or the throw of the loop head.\<close>

definition format_legacy :: "jsval \<Rightarrow> exn + jsval" where
  "format_legacy d =
     (let summaryData = summarySections d;
          sectionKeys = (if truthy (field d ''_section_order'')
                         then iterate (field d ''_section_order'')
                         else Inr (map (\<lambda>(key, section). JStr key) summaryData))
      in case sectionKeys of
           Inl e \<Rightarrow> Inl e
         | Inr keys \<Rightarrow> Inr (JObj (foldl (\<lambda>formattedSummary key.
                                  format_section summaryData key formattedSummary) [] keys)))"

text \<open>
  The branch for the status \<^verbatim>\<open>completed\<close> with data.  A throw inside the asynchronous
  callback is nobody's to catch: the state stays as it is at the throw.
\<close>

definition on_completed :: "props \<Rightarrow> SummaryResponse \<Rightarrow> summary_hook \<Rightarrow> summary_hook" where
  "on_completed p pollingResult st =
     (let d = data_sr pollingResult;
          meetingName_v =
            (if truthy (field d ''MeetingName'') then field d ''MeetingName''
             else (case meetingName pollingResult of Some n \<Rightarrow> JStr n | None \<Rightarrow> JUndefined));
          st1 = (if truthy meetingName_v then emit [UpdateMeetingTitle meetingName_v] st else st);
          refresh = (if truthy meetingName_v \<and> onMeetingUpdated p then [OnMeetingUpdated] else [])
      in if truthy (field d ''markdown'')
         then emit ([ToastSuccess completed_title completed_description] @ refresh @
                    [TrackSummaryGenerationCompleted (provider p) (model p) True None])
                (st1\<lparr>aiSummary := JObj [(''markdown'', field d ''markdown'')],
                     summaryStatus := completed\<rparr>)
         else
           (case every_empty (map snd (summarySections d)) of
              Inl e \<Rightarrow> emit [Unhandled e] st1
            | Inr True \<Rightarrow>
                emit [TrackSummaryGenerationCompleted (provider p) (model p) False
                        (Some ''Empty summary generated'')]
                  (st1\<lparr>summaryError := Some empty_content_message, summaryStatus := error\<rparr>)
            | Inr False \<Rightarrow>
                (case format_legacy d of
                   Inl e \<Rightarrow> emit [Unhandled e] st1
                 | Inr formattedSummary \<Rightarrow>
                     emit ([ToastSuccess completed_title completed_description,
                            TrackSummaryGenerationCompleted (provider p) (model p) True None] @ refresh)
                       (st1\<lparr>aiSummary := formattedSummary, summaryStatus := completed\<rparr>))))"

text \<open>
  The callback \<^verbatim>\<open>processSummary\<close> hands to \<^verbatim>\<open>startSummaryPolling\<close>, for a run started with
  the flag \<open>isRegeneration\<close>.  \<open>api_get_summary\<close> is the outcome of the reload, should the
  callback ask for it.
\<close>

definition on_update ::
  "props \<Rightarrow> bool \<Rightarrow> (exn + SummaryResponse option) \<Rightarrow> SummaryResponse \<Rightarrow> summary_hook \<Rightarrow> summary_hook" where
  "on_update p isRegeneration api_get_summary pollingResult st =
     (if status pollingResult = ''cancelled'' then on_cancelled api_get_summary st
      else if status pollingResult = ''error'' \<or> status pollingResult = ''failed''
      then on_error p isRegeneration api_get_summary pollingResult st
      else if status pollingResult = ''completed'' \<and> truthy (data_sr pollingResult)
      then on_completed p pollingResult st
      else st)"

subsection \<open>Starting and stopping a run\<close>

text \<open>The \<^verbatim>\<open>catch\<close> block of \<^verbatim>\<open>processSummary\<close>.\<close>

definition processSummary_catch :: "props \<Rightarrow> bool \<Rightarrow> exn \<Rightarrow> summary_hook \<Rightarrow> summary_hook" where
  "processSummary_catch p isRegeneration e st =
     emit [ToastError (failed_text isRegeneration) (message_of e),
           TrackSummaryGenerationCompleted (provider p) (model p) False (Some (message_of e))]
       (st\<lparr>summaryError := Some (message_of e), summaryStatus := error\<rparr>)"

text \<open>
  \<^verbatim>\<open>processSummary({transcriptText, customPrompt, isRegeneration})\<close>, on the provider and
  the hook.  \<open>api_process_transcript\<close> is the outcome of the backend call: it throws or
  yields the process id.  The function runs from the call to its end within the last
  render, so the \<^verbatim>\<open>startSummaryPolling\<close> it calls is the one made by that render.
\<close>

definition processSummary ::
  "props \<Rightarrow> string \<Rightarrow> string \<Rightarrow> bool \<Rightarrow> (exn + string) \<Rightarrow> sidebar \<times> summary_hook
   \<Rightarrow> sidebar \<times> summary_hook" where
  "processSummary p transcriptText customPrompt isRegeneration api_process_transcript s =
     (let sb = fst s;
          st1 = (snd s)\<lparr>summaryStatus := (if isRegeneration then regenerating else processing),
                        summaryError := None\<rparr>
      in if trim transcriptText = []
         then (sb, processSummary_catch p isRegeneration (Error no_transcript_message) st1)
         else
           let st2 = (if \<not> isRegeneration then st1\<lparr>originalTranscript := transcriptText\<rparr> else st1);
               st3 = emit ([TrackSummaryGenerationStarted (provider p) (model p)] @
                           (if trim customPrompt \<noteq> [] then [TrackCustomPromptUsed] else []) @
                           [ToastInfo (summary_progress_prefix @
                                       (if isRegeneration then word_regeneration else word_generation) @
                                       summary_progress_suffix)
                                      (provider p @ ''/'' @ model p @ using_suffix)]) st2
           in (case api_process_transcript of
                 Inl e \<Rightarrow> (sb, processSummary_catch p isRegeneration e st3)
               | Inr process_id \<Rightarrow>
                   (startSummaryPolling (rendered sb) (meeting_id p) process_id sb, st3)))"

text \<open>\<^verbatim>\<open>handleRegenerateSummary\<close>\<close>

definition handleRegenerateSummary ::
  "props \<Rightarrow> (exn + string) \<Rightarrow> sidebar \<times> summary_hook \<Rightarrow> sidebar \<times> summary_hook" where
  "handleRegenerateSummary p api_process_transcript s =
     (if trim (originalTranscript (snd s)) = [] then s
      else processSummary p (originalTranscript (snd s)) [] True api_process_transcript s)"


text \<open>Example data for a run.\<close>

definition example_props :: props where
  "example_props = \<lparr>meeting_id = ''m1'', provider = ''ollama'', model = ''gemma3:1b'',
                     selectedTemplate = ''standard_meeting'', onMeetingUpdated = True,
                     onOpenModelSettings = True\<rparr>"

definition regenerating_hook :: "jsval \<Rightarrow> summary_hook" where
  "regenerating_hook shown = \<lparr>summaryStatus = regenerating, summaryError = None,
                               originalTranscript = ''[00:00] hello'', aiSummary = shown,
                               effects = []\<rparr>"

definition summary_response :: "string \<Rightarrow> jsval \<Rightarrow> string option \<Rightarrow> SummaryResponse" where
  "summary_response s d e = \<lparr>status = s, data_sr = d, error_sr = e, meetingName = None\<rparr>"

section \<open>Properties of the paginated transcripts\<close>
lemma sorted_merge_page: "sorted (map start_or_zero (merge_page prev page))"
  by (simp add: merge_page_def Let_def)

lemma set_merge_page: "set (map id_tr (merge_page prev page)) = set (map id_tr prev) \<union> set (map id_tr page)"
  by (auto simp: merge_page_def Let_def)

lemma distinct_merge_page:
  assumes "distinct (map id_tr prev)" and "distinct (map id_tr page)"
  shows "distinct (map id_tr (merge_page prev page))"
proof -
  let ?new = "filter (\<lambda>t. id_tr t \<notin> set (map id_tr prev)) page"
  have "distinct (map id_tr ?new)"
    using assms(2) by (simp add: distinct_map_filter)
  moreover have "x \<notin> set (map id_tr prev)" if "x \<in> set (map id_tr ?new)" for x
    using that by auto
  then have "set (map id_tr prev) \<inter> set (map id_tr ?new) = {}"
    by blast
  ultimately have "distinct (map id_tr (prev @ ?new))"
    using assms(1) by simp
  then have "distinct (map id_tr (sort_key start_or_zero (prev @ ?new)))"
    by (metis distinct_map distinct_sort set_sort)
  then show ?thesis
    by (simp add: merge_page_def Let_def)
qed

lemma sorted_merge_pages:
  "pages \<noteq> [] \<Longrightarrow> sorted (map start_or_zero (merge_pages prev pages))"
proof (induction pages arbitrary: prev)
  case Nil
  then show ?case by simp
next
  case (Cons page pages)
  show ?case
  proof (cases pages)
    case Nil
    then show ?thesis by (simp add: sorted_merge_page)
  next
    case (Cons p ps)
    then have "pages \<noteq> []" by simp
    from Cons.IH [OF this] show ?thesis by simp
  qed
qed

lemma distinct_merge_pages:
  "distinct (map id_tr prev) \<Longrightarrow> \<forall>page \<in> set pages. distinct (map id_tr page) \<Longrightarrow>
   distinct (map id_tr (merge_pages prev pages))"
  by (induction pages arbitrary: prev) (simp_all add: distinct_merge_page)

lemma segments_keys:
  "map timestamp_seg (convertTranscriptsToSegments ts) = map start_or_zero ts"
  "map id_seg (convertTranscriptsToSegments ts) = map id_tr ts"
  by (simp_all add: convertTranscriptsToSegments_def)

text \<open>
  What one \<^verbatim>\<open>loadMore\<close> does to the list: nothing (debounced, guarded, or the read
  failed), or the merge of the page it received.
\<close>

lemma loadMore_transcripts:
  "transcripts (loadMore mid now response st) = transcripts st \<or>
   (\<exists>r. response = Some r \<and>
        transcripts (loadMore mid now response st) = merge_page (transcripts st) (transcripts_resp r))"
  by (cases response) (auto simp: loadMore_def loadTranscriptsAtOffset_def Let_def)

lemma loadMore_seq_merge_pages:
  "\<exists>pages. transcripts (loadMore_seq mid reads st) = merge_pages (transcripts st) pages \<and>
      set pages \<subseteq> transcripts_resp ` {r. Some r \<in> snd ` set reads}"
proof (induction reads arbitrary: st)
  case Nil
  have "transcripts st = merge_pages (transcripts st) []" by simp
  then show ?case by force
next
  case (Cons a reads)
  obtain now response where a: "a = (now, response)" by (cases a)
  let ?st = "loadMore mid now response st"
  let ?R = "\<lambda>reads. transcripts_resp ` {r. Some r \<in> snd ` set reads}"
  from Cons.IH [of ?st] obtain pages where
    p: "transcripts (loadMore_seq mid reads ?st) = merge_pages (transcripts ?st) pages"
    and s: "set pages \<subseteq> ?R reads"
    by blast
  have mono: "?R reads \<subseteq> ?R (a # reads)"
    by auto
  have unfold: "loadMore_seq mid (a # reads) st = loadMore_seq mid reads ?st"
    by (simp add: a)
  from loadMore_transcripts [of mid now response st]
  show ?case
  proof
    assume same: "transcripts ?st = transcripts st"
    have "transcripts (loadMore_seq mid (a # reads) st) = merge_pages (transcripts st) pages"
      using p same unfold by simp
    moreover have "set pages \<subseteq> ?R (a # reads)"
      using s mono by blast
    ultimately show ?thesis by blast
  next
    assume "\<exists>r. response = Some r \<and> transcripts ?st = merge_page (transcripts st) (transcripts_resp r)"
    then obtain r where r: "response = Some r"
      and m: "transcripts ?st = merge_page (transcripts st) (transcripts_resp r)" by blast
    have "transcripts (loadMore_seq mid (a # reads) st)
        = merge_pages (transcripts st) (transcripts_resp r # pages)"
      using p m unfold by simp
    moreover have "transcripts_resp r \<in> ?R (a # reads)"
      using r a by force
    then have "set (transcripts_resp r # pages) \<subseteq> ?R (a # reads)"
      using s mono by auto
    ultimately show ?thesis by blast
  qed
qed

text \<open>
  C4.  As stated the claim fails: new rows are only compared with the ids already loaded,
  so two rows with one id inside a single page are both kept.  What holds, for the pages
  that a sequence of \<^verbatim>\<open>loadMore\<close> reads appends to an existing list: after at least one
  page the segments are sorted by start time, whatever the order of arrival; and if
  neither the existing list nor any single page repeats an id, no id occurs twice in the
  result, however the pages overlap with the list and with each other.
\<close>

theorem merge_pages_sorted_distinct:
  "(pages \<noteq> [] \<longrightarrow>
      sorted (map timestamp_seg (convertTranscriptsToSegments (merge_pages prev pages)))) \<and>
   (distinct (map id_tr prev) \<and> (\<forall>page \<in> set pages. distinct (map id_tr page)) \<longrightarrow>
      distinct (map id_seg (convertTranscriptsToSegments (merge_pages prev pages))))"
proof (intro conjI impI)
  assume "pages \<noteq> []"
  then have "sorted (map start_or_zero (merge_pages prev pages))"
    by (rule sorted_merge_pages)
  then show "sorted (map timestamp_seg (convertTranscriptsToSegments (merge_pages prev pages)))"
    by (simp only: segments_keys)
next
  assume "distinct (map id_tr prev) \<and> (\<forall>page \<in> set pages. distinct (map id_tr page))"
  then have "distinct (map id_tr (merge_pages prev pages))"
    using distinct_merge_pages by blast
  then show "distinct (map id_seg (convertTranscriptsToSegments (merge_pages prev pages)))"
    by (simp only: segments_keys)
qed

theorem merge_pages_sorted_distinct_witness:
  "[[row ''c'' (Some 3), row ''a'' (Some 5)], [row ''b'' None, row ''d'' (Some 2)]] \<noteq> [] \<and>
   distinct (map id_tr [row ''a'' (Some 5), row ''b'' None]) \<and>
   distinct (map id_tr [row ''c'' (Some 3), row ''a'' (Some 5)]) \<and>
   distinct (map id_tr [row ''b'' None, row ''d'' (Some 2)]) \<and>
   sorted (map timestamp_seg (convertTranscriptsToSegments (merge_pages [row ''a'' (Some 5), row ''b'' None]
      [[row ''c'' (Some 3), row ''a'' (Some 5)], [row ''b'' None, row ''d'' (Some 2)]]))) \<and>
   distinct (map id_seg (convertTranscriptsToSegments (merge_pages [row ''a'' (Some 5), row ''b'' None]
      [[row ''c'' (Some 3), row ''a'' (Some 5)], [row ''b'' None, row ''d'' (Some 2)]])))"
  using merge_pages_sorted_distinct [of
      "[[row ''c'' (Some 3), row ''a'' (Some 5)], [row ''b'' None, row ''d'' (Some 2)]]"
      "[row ''a'' (Some 5), row ''b'' None]"]
  by (simp add: row_def)

text \<open>
  The claim as stated, refuted: one \<^verbatim>\<open>loadMore\<close> on an empty list whose page holds the
  row \<open>s1\<close> twice leaves two segments with the id \<open>s1\<close>.
\<close>

theorem loadMore_duplicate_in_page_counterexample:
  "\<not> distinct (map id_seg (convertTranscriptsToSegments (transcripts
       (loadMore (Some ''m1'') 1000
          (Some \<lparr>transcripts_resp = [row ''s1'' (Some 1), row ''s1'' (Some 1)],
                  total_count = 250, has_more = True\<rparr>)
          (loaded [])))))"
  by (simp add: loadMore_def loadTranscriptsAtOffset_def loaded_def merge_page_def
      convertTranscriptsToSegments_def row_def start_or_zero_def Let_def)

section \<open>Properties of the recovery scan\<close>

lemma audio_status_keeps:
  "meetingId (audio_status h m) = meetingId m"
  "lastUpdated (audio_status h m) = lastUpdated m"
  "title (audio_status h m) = title m"
  by (simp_all add: audio_status_def split: option.splits sum.splits)

lemma audio_status_folderPath:
  "folderPath m = Some path \<Longrightarrow> path \<noteq> [] \<Longrightarrow>
   folderPath (audio_status h m) = (if h path = Inr True then Some path else None)"
  by (auto simp: audio_status_def split: sum.splits)

lemma recent_filter_iff:
  "recent_filter now ss m \<longleftrightarrow>
     now - retention_window < lastUpdated m \<and> lastUpdated m < now - min_age \<and>
     \<not> flagged_just_saved ss m \<and> \<not> in_just_stopped_grace now ss m"
  by (auto simp: recent_filter_def flagged_just_saved_def in_just_stopped_grace_def
      retention_window_def min_age_def Let_def)

lemma recent_filter_cong:
  "meetingId x = meetingId m \<Longrightarrow> lastUpdated x = lastUpdated m \<Longrightarrow>
   recent_filter now ss x = recent_filter now ss m"
  by (simp add: recent_filter_def Let_def)

lemma listed_scan:
  assumes "m \<in> set meetings"
  shows "listed m (snd (checkForRecoverableTranscripts now (Inr meetings) h ss st))
         \<longleftrightarrow> recent_filter now ss m"
proof
  assume "listed m (snd (checkForRecoverableTranscripts now (Inr meetings) h ss st))"
  then obtain x where x: "x \<in> set meetings" "recent_filter now ss x"
    and "meetingId x = meetingId m" "lastUpdated x = lastUpdated m"
    by (auto simp: listed_def checkForRecoverableTranscripts_def Let_def audio_status_keeps)
  then show "recent_filter now ss m"
    using recent_filter_cong by blast
next
  assume "recent_filter now ss m"
  with assms have "m \<in> set (filter (recent_filter now ss) meetings)" by simp
  then have "(meetingId m, lastUpdated m) \<in>
      (\<lambda>x. (meetingId (audio_status h x), lastUpdated (audio_status h x))) `
        set (filter (recent_filter now ss) meetings)"
    unfolding audio_status_keeps by (rule imageI [where f = "\<lambda>x. (meetingId x, lastUpdated x)"])
  then show "listed m (snd (checkForRecoverableTranscripts now (Inr meetings) h ss st))"
    by (simp add: listed_def checkForRecoverableTranscripts_def Let_def image_image)
qed

text \<open>
  C2.  For every stored session the store returns: it is listed exactly when
  \<open>now - retention_window < lastUpdated < now - min_age\<close> (7 days and 15 seconds) and it is
  neither flagged as just saved nor inside the just-stopped grace window (a stop marker
  younger than two minutes while the session itself is younger than two minutes); a
  session ten seconds old is never listed, one older than eight days is never listed, and
  one strictly between the bounds with no just-saved marker, outside the grace window, is
  listed.
\<close>

theorem recovery_scan_lists_exactly:
  assumes "m \<in> set meetings"
  shows "(listed m (snd (checkForRecoverableTranscripts now (Inr meetings) h ss st)) \<longleftrightarrow>
            now - retention_window < lastUpdated m \<and> lastUpdated m < now - min_age \<and>
            \<not> flagged_just_saved ss m \<and> \<not> in_just_stopped_grace now ss m) \<and>
         (lastUpdated m = now - 10 * 1000 \<longrightarrow>
            \<not> listed m (snd (checkForRecoverableTranscripts now (Inr meetings) h ss st))) \<and>
         (lastUpdated m < now - 8 * 24 * 60 * 60 * 1000 \<longrightarrow>
            \<not> listed m (snd (checkForRecoverableTranscripts now (Inr meetings) h ss st))) \<and>
         (now - 7 * 24 * 60 * 60 * 1000 < lastUpdated m \<and> lastUpdated m < now - 15 * 1000 \<and>
          just_saved_meeting_id ss = None \<and> \<not> in_just_stopped_grace now ss m \<longrightarrow>
            listed m (snd (checkForRecoverableTranscripts now (Inr meetings) h ss st)))"
  unfolding listed_scan [OF assms] recent_filter_iff
  by (auto simp: retention_window_def min_age_def flagged_just_saved_def)

theorem recovery_scan_lists_exactly_witness:
  "session ''b'' 1699999000000 None \<in> set [session ''a'' 1699999990000 None,
      session ''b'' 1699999000000 None, session ''c'' 1699000000000 None] \<and>
   listed (session ''b'' 1699999000000 None)
     (snd (checkForRecoverableTranscripts 1700000000000
        (Inr [session ''a'' 1699999990000 None, session ''b'' 1699999000000 None,
              session ''c'' 1699000000000 None])
        (\<lambda>p. Inr True) no_flags idle_recovery)) \<and>
   just_saved_meeting_id no_flags = None \<and>
   \<not> in_just_stopped_grace 1700000000000 no_flags (session ''b'' 1699999000000 None)"
  using recovery_scan_lists_exactly [of "session ''b'' 1699999000000 None"
      "[session ''a'' 1699999990000 None, session ''b'' 1699999000000 None,
        session ''c'' 1699000000000 None]" 1700000000000 "\<lambda>p. Inr True" no_flags idle_recovery]
  by (simp add: session_def no_flags_def in_just_stopped_grace_def retention_window_def
      min_age_def flagged_just_saved_def)

text \<open>
  C8.  Every candidate of the scan is exposed, in its place and with its id, title and
  time of last update; for a candidate with a recorded folder path the exposed path is
  decided by \<open>has_audio_checkpoints\<close> on that path: it is kept when the command answers
  true and cleared when it answers false or throws.
\<close>

theorem scan_reports_missing_audio:
  "length (recoverableMeetings (snd (checkForRecoverableTranscripts now (Inr meetings) h ss st)))
     = length (filter (recent_filter now ss) meetings) \<and>
   (\<forall>i < length (filter (recent_filter now ss) meetings).
      meetingId (recoverableMeetings (snd (checkForRecoverableTranscripts now (Inr meetings) h ss st)) ! i)
        = meetingId (filter (recent_filter now ss) meetings ! i) \<and>
      title (recoverableMeetings (snd (checkForRecoverableTranscripts now (Inr meetings) h ss st)) ! i)
        = title (filter (recent_filter now ss) meetings ! i) \<and>
      lastUpdated (recoverableMeetings (snd (checkForRecoverableTranscripts now (Inr meetings) h ss st)) ! i)
        = lastUpdated (filter (recent_filter now ss) meetings ! i) \<and>
      (\<forall>path. folderPath (filter (recent_filter now ss) meetings ! i) = Some path \<and> path \<noteq> [] \<longrightarrow>
         folderPath (recoverableMeetings (snd (checkForRecoverableTranscripts now (Inr meetings) h ss st)) ! i)
           = (if h path = Inr True then Some path else None)))"
proof -
  let ?candidates = "filter (recent_filter now ss) meetings"
  let ?exposed = "recoverableMeetings (snd (checkForRecoverableTranscripts now (Inr meetings) h ss st))"
  have exposed: "?exposed = map (audio_status h) ?candidates"
    by (simp add: checkForRecoverableTranscripts_def Let_def)
  have "length ?exposed = length ?candidates"
    by (simp add: exposed)
  moreover have "meetingId (?exposed ! i) = meetingId (?candidates ! i) \<and>
      title (?exposed ! i) = title (?candidates ! i) \<and>
      lastUpdated (?exposed ! i) = lastUpdated (?candidates ! i) \<and>
      (\<forall>path. folderPath (?candidates ! i) = Some path \<and> path \<noteq> [] \<longrightarrow>
         folderPath (?exposed ! i) = (if h path = Inr True then Some path else None))"
    if "i < length ?candidates" for i
  proof -
    have "?exposed ! i = audio_status h (?candidates ! i)"
      using that by (simp only: exposed nth_map)
    then show ?thesis
      by (simp add: audio_status_keeps audio_status_folderPath)
  qed
  ultimately show ?thesis by blast
qed

theorem scan_reports_missing_audio_witness:
  "map (\<lambda>x. (meetingId x, folderPath x))
     (recoverableMeetings (snd (checkForRecoverableTranscripts 1700000000000
        (Inr [session ''a'' 1699999000000 (Some ''/rec/a''), session ''b'' 1699999000000 (Some ''/rec/b''),
              session ''c'' 1699999000000 (Some ''/rec/c'')])
        (\<lambda>p. if p = ''/rec/a'' then Inr True else if p = ''/rec/b'' then Inr False
              else Inl (NonError ''io''))
        no_flags idle_recovery)))
   = [(''a'', Some ''/rec/a''), (''b'', None), (''c'', None)]"
  using scan_reports_missing_audio [of 1700000000000
      "[session ''a'' 1699999000000 (Some ''/rec/a''), session ''b'' 1699999000000 (Some ''/rec/b''),
        session ''c'' 1699999000000 (Some ''/rec/c'')]"
      "\<lambda>p. if p = ''/rec/a'' then Inr True else if p = ''/rec/b'' then Inr False
            else Inl (NonError ''io'')"
      no_flags idle_recovery]
  by (simp add: session_def no_flags_def idle_recovery_def checkForRecoverableTranscripts_def
      recent_filter_def audio_status_def Let_def)

section \<open>Properties of the recovery of a meeting\<close>

text \<open>
  The three ways a recovery ends: it throws before or at the commit and nothing durable
  has happened; the commit went through and the mark threw; or it returns.
\<close>

lemma recoverMeeting_cases:
  "(\<exists>e. fst (recoverMeeting mid calls w) = Inl e \<and>
        store_log (snd (recoverMeeting mid calls w)) = store_log w \<and>
        recoverableMeetings (hook (snd (recoverMeeting mid calls w))) = recoverableMeetings (hook w) \<and>
        (isl (saveMeeting calls) \<or> isl (getMeetingMetadata calls) \<or> getMeetingMetadata calls = Inr None
           \<or> loadMeetingTranscripts (getTranscripts calls) = []))
   \<or> (\<exists>e t f p sid md. fst (recoverMeeting mid calls w) = Inl e \<and> saveMeeting calls = Inr sid \<and>
          getMeetingMetadata calls = Inr (Some md) \<and> loadMeetingTranscripts (getTranscripts calls) \<noteq> [] \<and>
          markMeetingSaved calls = Inl e \<and>
          store_log (snd (recoverMeeting mid calls w)) = store_log w @ [SaveMeeting t f p] \<and>
          recoverableMeetings (hook (snd (recoverMeeting mid calls w))) = recoverableMeetings (hook w))
   \<or> (\<exists>r t f p sid md rest. fst (recoverMeeting mid calls w) = Inr r \<and> saveMeeting calls = Inr sid \<and>
          getMeetingMetadata calls = Inr (Some md) \<and> loadMeetingTranscripts (getTranscripts calls) \<noteq> [] \<and>
          markMeetingSaved calls = Inr () \<and> (rest = [] \<or> (\<exists>c. rest = [CleanupCheckpoints c])) \<and>
          store_log (snd (recoverMeeting mid calls w))
            = store_log w @ SaveMeeting t f p # MarkMeetingSaved mid # rest \<and>
          recoverableMeetings (hook (snd (recoverMeeting mid calls w)))
            = filter (\<lambda>m. meetingId m \<noteq> mid) (recoverableMeetings (hook w)))"
  by (auto simp: recoverMeeting_def recoverMeeting_try_def Let_def log_event_def setIsRecovering_def
      split: sum.splits option.splits if_splits)

lemma loadMeetingTranscripts_failed:
  "isl r \<or> r = Inr [] \<Longrightarrow> loadMeetingTranscripts r = []"
  by (auto simp: loadMeetingTranscripts_def split: sum.splits)

text \<open>
  C7.  The events a recovery adds to the durable log: a mark on the checkpoint is for the
  meeting being recovered, and it is there only when \<open>saveMeeting\<close> returned, directly
  after the commit.  When reading the metadata fails or finds none, when reading the
  transcripts fails or finds none, or when the commit throws, the recovery throws, adds
  nothing to the log (no mark), and leaves the list of recoverable meetings as it was.
\<close>

theorem recoverMeeting_marks_after_commit:
  "\<exists>added. store_log (snd (recoverMeeting mid calls w)) = store_log w @ added \<and>
     (\<forall>m. MarkMeetingSaved m \<in> set added \<longrightarrow>
        m = mid \<and> (\<exists>sid. saveMeeting calls = Inr sid) \<and>
        (\<exists>t f p rest. added = SaveMeeting t f p # MarkMeetingSaved mid # rest)) \<and>
     (isl (getMeetingMetadata calls) \<or> getMeetingMetadata calls = Inr None \<or>
      isl (getTranscripts calls) \<or> getTranscripts calls = Inr [] \<or> isl (saveMeeting calls) \<longrightarrow>
        added = [] \<and> isl (fst (recoverMeeting mid calls w)) \<and>
        recoverableMeetings (hook (snd (recoverMeeting mid calls w))) = recoverableMeetings (hook w))"
proof -
  let ?R = "recoverMeeting mid calls w"
  let ?fails = "isl (getMeetingMetadata calls) \<or> getMeetingMetadata calls = Inr None \<or>
      isl (getTranscripts calls) \<or> getTranscripts calls = Inr [] \<or> isl (saveMeeting calls)"
  have none: "loadMeetingTranscripts (getTranscripts calls) = []"
    if "isl (getTranscripts calls) \<or> getTranscripts calls = Inr []"
    using that by (rule loadMeetingTranscripts_failed)
  from recoverMeeting_cases [of mid calls w]
  consider
    (early) e where "fst ?R = Inl e" "store_log (snd ?R) = store_log w"
      "recoverableMeetings (hook (snd ?R)) = recoverableMeetings (hook w)"
  | (mark_threw) e t f p sid md where "fst ?R = Inl e" "saveMeeting calls = Inr sid"
      "getMeetingMetadata calls = Inr (Some md)" "loadMeetingTranscripts (getTranscripts calls) \<noteq> []"
      "store_log (snd ?R) = store_log w @ [SaveMeeting t f p]"
  | (returned) r t f p sid md rest where "fst ?R = Inr r" "saveMeeting calls = Inr sid"
      "getMeetingMetadata calls = Inr (Some md)" "loadMeetingTranscripts (getTranscripts calls) \<noteq> []"
      "rest = [] \<or> (\<exists>c. rest = [CleanupCheckpoints c])"
      "store_log (snd ?R) = store_log w @ SaveMeeting t f p # MarkMeetingSaved mid # rest"
    by blast
  then show ?thesis
  proof cases
    case early
    then show ?thesis
      by (intro exI [of _ "[]"]) simp
  next
    case mark_threw
    then have "\<not> ?fails" using none by auto
    with mark_threw show ?thesis
      by (intro exI [of _ "[SaveMeeting t f p]"]) simp
  next
    case returned
    then have "\<not> ?fails" using none by auto
    with returned show ?thesis
      by (intro exI [of _ "SaveMeeting t f p # MarkMeetingSaved mid # rest"]) auto
  qed
qed

theorem recoverMeeting_marks_after_commit_witness:
  "isl (saveMeeting (all_calls_succeed\<lparr>saveMeeting := Inl (Error ''database is locked'')\<rparr>)) \<and>
   store_log (snd (recoverMeeting ''m1'' (all_calls_succeed\<lparr>saveMeeting := Inl (Error ''database is locked'')\<rparr>)
      (world_listing [session ''m1'' 1699999000000 (Some ''/rec/m1'')]))) = [] \<and>
   isl (fst (recoverMeeting ''m1'' (all_calls_succeed\<lparr>saveMeeting := Inl (Error ''database is locked'')\<rparr>)
      (world_listing [session ''m1'' 1699999000000 (Some ''/rec/m1'')]))) \<and>
   recoverableMeetings (hook (snd (recoverMeeting ''m1''
      (all_calls_succeed\<lparr>saveMeeting := Inl (Error ''database is locked'')\<rparr>)
      (world_listing [session ''m1'' 1699999000000 (Some ''/rec/m1'')]))))
     = [session ''m1'' 1699999000000 (Some ''/rec/m1'')]"
  using recoverMeeting_marks_after_commit [of "''m1''"
      "all_calls_succeed\<lparr>saveMeeting := Inl (Error ''database is locked'')\<rparr>"
      "world_listing [session ''m1'' 1699999000000 (Some ''/rec/m1'')]"]
  by (auto simp: all_calls_succeed_def world_listing_def)

section \<open>Properties of the summary polling\<close>

lemma map_of_entry_set: "map_of (entry_set k v m) = (map_of m)(k \<mapsto> v)"
  by (induction m) (auto simp: fun_eq_iff)

lemma map_of_entry_delete: "map_of (entry_delete k m) = (map_of m)(k := None)"
  by (induction m) (auto simp: entry_delete_def fun_eq_iff)

lemma interval_fires_dead:
  "intervals sb t = None \<Longrightarrow> interval_fires t outcome sb = sb"
  by (simp add: interval_fires_def)

lemma fires_seq_append:
  "fires_seq t (xs @ ys) sb = fires_seq t ys (fires_seq t xs sb)"
  by (induction xs arbitrary: sb) simp_all

lemma fires_seq_dead: "intervals sb t = None \<Longrightarrow> fires_seq t os sb = sb"
  by (induction os arbitrary: sb) (simp_all add: interval_fires_dead)

lemma interval_fires_on:
  assumes "intervals sb t = Some p" "pollCount p + 1 < MAX_POLLS" "goes_on (pollCount p + 1) outcome"
  shows "intervals (interval_fires t outcome sb) t = Some (p\<lparr>pollCount := pollCount p + 1\<rparr>)"
    and "activeSummaryPolls (interval_fires t outcome sb) = activeSummaryPolls sb"
    and "changed (interval_fires t outcome sb) = changed sb"
    and "summary_requests (interval_fires t outcome sb) = summary_requests sb @ [t]"
    and "updates (interval_fires t outcome sb) = updates sb @ [(t, projr outcome)]"
  using assms
  by (cases outcome; auto simp: interval_fires_def goes_on_def onUpdate_def Let_def)+

lemma interval_fires_timeout:
  assumes "intervals sb t = Some p" "MAX_POLLS \<le> pollCount p + 1"
  shows "intervals (interval_fires t outcome sb) t = None"
    and "activeSummaryPolls (interval_fires t outcome sb)
           = entry_delete (poll_meetingId p) (activeSummaryPolls sb)"
    and "changed (interval_fires t outcome sb)"
    and "summary_requests (interval_fires t outcome sb) = summary_requests sb"
    and "updates (interval_fires t outcome sb) = updates sb @ [(t, timeout_response)]"
  using assms
  by (simp_all add: interval_fires_def onUpdate_def delete_poll_def setActiveSummaryPolls_def
      clearInterval_def Let_def timeout_response_def)

lemma fires_seq_on:
  assumes "intervals sb t = Some p" "pollCount p + length os < MAX_POLLS"
    and "\<forall>i < length os. goes_on (pollCount p + i + 1) (os ! i)"
  shows "intervals (fires_seq t os sb) t = Some (p\<lparr>pollCount := pollCount p + length os\<rparr>) \<and>
     activeSummaryPolls (fires_seq t os sb) = activeSummaryPolls sb \<and>
     changed (fires_seq t os sb) = changed sb \<and>
     summary_requests (fires_seq t os sb) = summary_requests sb @ replicate (length os) t \<and>
     updates (fires_seq t os sb) = updates sb @ map (\<lambda>outcome. (t, projr outcome)) os"
  using assms
proof (induction os arbitrary: sb p)
  case Nil
  then show ?case by simp
next
  case (Cons outcome os)
  let ?p = "p\<lparr>pollCount := pollCount p + 1\<rparr>"
  let ?sb = "interval_fires t outcome sb"
  from Cons.prems have g: "goes_on (pollCount p + 1) outcome" by auto
  from Cons.prems have b1: "pollCount p + 1 < MAX_POLLS" by simp
  note step = interval_fires_on [OF Cons.prems(1) b1 g]
  have live: "intervals ?sb t = Some ?p" by (simp add: step)
  have bound: "pollCount ?p + length os < MAX_POLLS" using Cons.prems(2) by simp
  have rest: "\<forall>i < length os. goes_on (pollCount ?p + i + 1) (os ! i)"
  proof (intro allI impI)
    fix i assume "i < length os"
    then have "goes_on (pollCount p + Suc i + 1) ((outcome # os) ! Suc i)"
      using Cons.prems(3) by (metis Suc_less_eq length_Cons)
    then show "goes_on (pollCount ?p + i + 1) (os ! i)" by simp
  qed
  from Cons.IH [OF live bound rest] show ?case
    by (simp add: step replicate_app_Cons_same)
qed

text \<open>
  A loop whose interval stays set: no update of the registry is pending, so that no
  clean-up is due; the interval is set with the count 0 and fires at least \<open>MAX_POLLS\<close>
  times, every 5 seconds, and the first \<open>MAX_POLLS - 1 = 199\<close> polls come back without a
  final status.  Then the calls of \<^verbatim>\<open>onUpdate\<close> made by the loop are these
  199 results followed by the timeout error, which is the only error among them; the
  200th firing, 1000 seconds after the start, clears the interval and removes the meeting
  from the current \<^verbatim>\<open>Map\<close>; and \<^verbatim>\<open>api_get_summary\<close> has been asked 199 times, however often
  the interval would fire afterwards.
\<close>

lemma live_poll_times_out_once:
  assumes "intervals sb t = Some p" "pollCount p = 0"
    and "\<not> changed sb"
    and "MAX_POLLS \<le> length outcomes"
    and "\<forall>i < MAX_POLLS - 1. goes_on (i + 1) (outcomes ! i)"
  shows "updates (fires_seq t outcomes sb)
           = updates sb @ map (\<lambda>outcome. (t, projr outcome)) (take (MAX_POLLS - 1) outcomes)
               @ [(t, timeout_response)] \<and>
         length (filter (\<lambda>u. status (snd u) = ''error'')
           (drop (length (updates sb)) (updates (fires_seq t outcomes sb)))) = 1 \<and>
         summary_requests (fires_seq t outcomes sb)
           = summary_requests sb @ replicate (MAX_POLLS - 1) t \<and>
         intervals (fires_seq t outcomes sb) t = None \<and>
         map_of (activeSummaryPolls (fires_seq t outcomes sb)) (poll_meetingId p) = None \<and>
         MAX_POLLS * POLL_INTERVAL_MS = 1000 * 1000"
proof -
  let ?before = "take (MAX_POLLS - 1) outcomes"
  let ?sb1 = "fires_seq t ?before sb"
  let ?sb2 = "interval_fires t (outcomes ! (MAX_POLLS - 1)) ?sb1"
  have len: "length ?before = MAX_POLLS - 1"
    using assms(4) by simp
  have split: "outcomes = ?before @ outcomes ! (MAX_POLLS - 1) # drop MAX_POLLS outcomes"
    using assms(4) id_take_nth_drop [of "MAX_POLLS - 1" outcomes] by (simp add: MAX_POLLS_def)
  have on: "\<forall>i < length ?before. goes_on (pollCount p + i + 1) (?before ! i)"
    using assms(2,5) len by simp
  have "pollCount p + length ?before < MAX_POLLS"
    using len assms(2) by (simp add: MAX_POLLS_def)
  from fires_seq_on [OF assms(1) this on, unfolded len] assms(2) have
    live1: "intervals ?sb1 t = Some (p\<lparr>pollCount := MAX_POLLS - 1\<rparr>)"
    and a1: "activeSummaryPolls ?sb1 = activeSummaryPolls sb"
    and r1: "summary_requests ?sb1 = summary_requests sb @ replicate (MAX_POLLS - 1) t"
    and u1: "updates ?sb1 = updates sb @ map (\<lambda>outcome. (t, projr outcome)) ?before"
    by simp_all
  have "MAX_POLLS \<le> pollCount (p\<lparr>pollCount := MAX_POLLS - 1\<rparr>) + 1"
    by (simp add: MAX_POLLS_def)
  note last = interval_fires_timeout [OF live1 this, of "outcomes ! (MAX_POLLS - 1)"]
  have dead: "intervals ?sb2 t = None"
    by (rule last(1))
  have all: "fires_seq t outcomes sb = ?sb2"
  proof -
    have "fires_seq t outcomes sb
        = fires_seq t (?before @ outcomes ! (MAX_POLLS - 1) # drop MAX_POLLS outcomes) sb"
      using split by simp
    also have "\<dots> = fires_seq t (drop MAX_POLLS outcomes) ?sb2"
      by (simp only: fires_seq_append fires_seq.simps)
    also have "\<dots> = ?sb2"
      using dead by (rule fires_seq_dead)
    finally show ?thesis .
  qed
  have no_error: "filter (\<lambda>u. status (snd u) = ''error'') (map (\<lambda>outcome. (t, projr outcome)) ?before) = []"
  proof -
    have "status (projr outcome) \<noteq> ''error''" if "outcome \<in> set ?before" for outcome
    proof -
      from that obtain i where "i < length ?before" "outcome = ?before ! i"
        by (metis in_set_conv_nth)
      with assms(5) len have "goes_on (i + 1) outcome" by simp
      then show ?thesis by (cases outcome) (simp_all add: goes_on_def)
    qed
    then show ?thesis by (simp add: filter_empty_conv)
  qed
  have u2: "updates ?sb2 = updates sb @ map (\<lambda>outcome. (t, projr outcome)) ?before @ [(t, timeout_response)]"
    unfolding last(5) u1 by simp
  have once: "length (filter (\<lambda>u. status (snd u) = ''error'') (drop (length (updates sb)) (updates ?sb2))) = 1"
    unfolding u2 using no_error by (simp add: timeout_response_def)
  have r2: "summary_requests ?sb2 = summary_requests sb @ replicate (MAX_POLLS - 1) t"
    unfolding last(4) r1 by simp
  have a2: "map_of (activeSummaryPolls ?sb2) (poll_meetingId p) = None"
    unfolding last(2) by (simp add: map_of_entry_delete)
  have bound: "MAX_POLLS * POLL_INTERVAL_MS = 1000 * 1000"
    by (simp add: MAX_POLLS_def POLL_INTERVAL_MS_def)
  show ?thesis
    unfolding all by (intro conjI u2 once r2 dead a2 bound)
qed

text \<open>
  The first loop of a page is such a loop: the page of meeting \<open>m1\<close> is opened, a run is
  started and React renders; the interval is set, and after 250 firings without a final
  status the loop has called \<^verbatim>\<open>onUpdate\<close> 200 times, the last time with the timeout error.
\<close>

lemma first_poll_times_out_once:
  "intervals (poll_run [Navigate (Some ''m1''), Start ''m1'' ''p1'', Render] initial_sidebar) (Timer 0)
     = Some \<lparr>poll_meetingId = ''m1'', poll_processId = ''p1'', pollCount = 0\<rparr> \<and>
   length (updates (fires_seq (Timer 0) (replicate 250 (Inr processing_response))
      (poll_run [Navigate (Some ''m1''), Start ''m1'' ''p1'', Render] initial_sidebar))) = 200 \<and>
   last (updates (fires_seq (Timer 0) (replicate 250 (Inr processing_response))
      (poll_run [Navigate (Some ''m1''), Start ''m1'' ''p1'', Render] initial_sidebar)))
     = (Timer 0, timeout_response) \<and>
   length (summary_requests (fires_seq (Timer 0) (replicate 250 (Inr processing_response))
      (poll_run [Navigate (Some ''m1''), Start ''m1'' ''p1'', Render] initial_sidebar))) = 199 \<and>
   intervals (fires_seq (Timer 0) (replicate 250 (Inr processing_response))
      (poll_run [Navigate (Some ''m1''), Start ''m1'' ''p1'', Render] initial_sidebar)) (Timer 0) = None"
proof -
  let ?sb = "poll_run [Navigate (Some ''m1''), Start ''m1'' ''p1'', Render] initial_sidebar"
  let ?p = "\<lparr>poll_meetingId = ''m1'', poll_processId = ''p1'', pollCount = 0\<rparr>"
  have live: "intervals ?sb (Timer 0) = Some ?p"
    by (simp add: startSummaryPolling_def stopSummaryPolling_def rerender_def page_cleanup_def
        provider_cleanup_def setActiveSummaryPolls_def initial_sidebar_def Let_def)
  have logs: "updates ?sb = []" "summary_requests ?sb = []"
    by (simp_all add: startSummaryPolling_def stopSummaryPolling_def rerender_def page_cleanup_def
        provider_cleanup_def setActiveSummaryPolls_def initial_sidebar_def Let_def)
  have g: "goes_on n (Inr processing_response)" for n
    by (simp add: goes_on_def processing_response_def)
  have h1: "MAX_POLLS \<le> length (replicate 250 (Inr processing_response :: exn + SummaryResponse))"
    by (simp add: MAX_POLLS_def)
  have h2: "\<forall>i < MAX_POLLS - 1. goes_on (i + 1)
      (replicate 250 (Inr processing_response :: exn + SummaryResponse) ! i)"
    by (simp add: MAX_POLLS_def g)
  have c: "pollCount ?p = 0" by simp
  have settled: "\<not> changed ?sb"
    by (simp add: startSummaryPolling_def stopSummaryPolling_def rerender_def page_cleanup_def
        provider_cleanup_def setActiveSummaryPolls_def initial_sidebar_def Let_def)
  from live_poll_times_out_once [OF live c settled h1 h2] live
  show ?thesis
    unfolding logs by (simp add: MAX_POLLS_def)
qed

text \<open>
  So is a loop started after the one before it has ended.  The first loop of the page
  gets the status \<^verbatim>\<open>completed\<close>, clears its interval and deletes its entry; two renders
  later no update is pending and the \<^verbatim>\<open>Map\<close> is empty.  A second run is started and React
  renders: its interval \<open>Timer 1\<close> is set and registered, and no update is pending.
\<close>

lemma poll_after_finished_poll_is_kept:
  "activeSummaryPolls (poll_run [Navigate (Some ''m1''), Start ''m1'' ''p1'', Render,
      Fires (Timer 0) (Inr (summary_response ''completed'' (JObj []) None)), Render, Render]
      initial_sidebar) = [] \<and>
   \<not> changed (poll_run [Navigate (Some ''m1''), Start ''m1'' ''p1'', Render,
      Fires (Timer 0) (Inr (summary_response ''completed'' (JObj []) None)), Render, Render]
      initial_sidebar) \<and>
   intervals (poll_run [Navigate (Some ''m1''), Start ''m1'' ''p1'', Render,
      Fires (Timer 0) (Inr (summary_response ''completed'' (JObj []) None)), Render, Render,
      Start ''m1'' ''p2'', Render] initial_sidebar) (Timer 1)
     = Some \<lparr>poll_meetingId = ''m1'', poll_processId = ''p2'', pollCount = 0\<rparr> \<and>
   activeSummaryPolls (poll_run [Navigate (Some ''m1''), Start ''m1'' ''p1'', Render,
      Fires (Timer 0) (Inr (summary_response ''completed'' (JObj []) None)), Render, Render,
      Start ''m1'' ''p2'', Render] initial_sidebar) = [(''m1'', Timer 1)] \<and>
   \<not> changed (poll_run [Navigate (Some ''m1''), Start ''m1'' ''p1'', Render,
      Fires (Timer 0) (Inr (summary_response ''completed'' (JObj []) None)), Render, Render,
      Start ''m1'' ''p2'', Render] initial_sidebar)"
  by (simp add: startSummaryPolling_def stopSummaryPolling_def rerender_def page_cleanup_def
      provider_cleanup_def delete_poll_def setActiveSummaryPolls_def clearInterval_def
      entry_delete_def initial_sidebar_def interval_fires_def onUpdate_def summary_response_def
      MAX_POLLS_def Let_def)

text \<open>
  C3.  A loop that supersedes a registered one does not get that far.  On the page of
  meeting \<open>m1\<close> a first run is started and React renders; then a second run is started
  for \<open>m1\<close>: \<^verbatim>\<open>startSummaryPolling\<close> clears the interval of the first loop, sets the
  interval \<open>Timer 1\<close> of the second and registers it.  In the render that follows, the
  page's clean-up calls the \<^verbatim>\<open>stopSummaryPolling\<close> of the render before, which still holds
  the first handle and deletes the entry of \<open>m1\<close> from the current \<^verbatim>\<open>Map\<close>: the entry of
  the second loop.  That update brings another render, in which the provider's clean-up
  clears every handle of the \<^verbatim>\<open>Map\<close> it was set up with, \<open>Timer 1\<close> among them.  After the
  third render no update is pending, the second interval is cleared and the \<^verbatim>\<open>Map\<close> is
  empty.  The second loop has not polled, and however often its interval falls due, with
  whatever the backend would answer, the loop calls neither \<^verbatim>\<open>api_get_summary\<close> nor
  \<^verbatim>\<open>onUpdate\<close>: no timeout error is ever emitted for that run.
\<close>

theorem superseding_poll_never_times_out:
  "intervals (poll_run [Navigate (Some ''m1''), Start ''m1'' ''p1'', Render] initial_sidebar) (Timer 0)
     = Some \<lparr>poll_meetingId = ''m1'', poll_processId = ''p1'', pollCount = 0\<rparr> \<and>
   intervals (poll_run [Navigate (Some ''m1''), Start ''m1'' ''p1'', Render, Start ''m1'' ''p2'']
      initial_sidebar) (Timer 0) = None \<and>
   intervals (poll_run [Navigate (Some ''m1''), Start ''m1'' ''p1'', Render, Start ''m1'' ''p2'']
      initial_sidebar) (Timer 1)
     = Some \<lparr>poll_meetingId = ''m1'', poll_processId = ''p2'', pollCount = 0\<rparr> \<and>
   activeSummaryPolls (poll_run [Navigate (Some ''m1''), Start ''m1'' ''p1'', Render, Start ''m1'' ''p2'']
      initial_sidebar) = [(''m1'', Timer 1)] \<and>
   activeSummaryPolls (poll_run [Navigate (Some ''m1''), Start ''m1'' ''p1'', Render, Start ''m1'' ''p2'',
      Render] initial_sidebar) = [] \<and>
   intervals (poll_run [Navigate (Some ''m1''), Start ''m1'' ''p1'', Render, Start ''m1'' ''p2'',
      Render] initial_sidebar) (Timer 1)
     = Some \<lparr>poll_meetingId = ''m1'', poll_processId = ''p2'', pollCount = 0\<rparr> \<and>
   changed (poll_run [Navigate (Some ''m1''), Start ''m1'' ''p1'', Render, Start ''m1'' ''p2'',
      Render] initial_sidebar) \<and>
   intervals (poll_run [Navigate (Some ''m1''), Start ''m1'' ''p1'', Render, Start ''m1'' ''p2'',
      Render, Render] initial_sidebar) (Timer 1) = None \<and>
   intervals (poll_run [Navigate (Some ''m1''), Start ''m1'' ''p1'', Render, Start ''m1'' ''p2'',
      Render, Render, Render] initial_sidebar) (Timer 1) = None \<and>
   activeSummaryPolls (poll_run [Navigate (Some ''m1''), Start ''m1'' ''p1'', Render, Start ''m1'' ''p2'',
      Render, Render, Render] initial_sidebar) = [] \<and>
   \<not> changed (poll_run [Navigate (Some ''m1''), Start ''m1'' ''p1'', Render, Start ''m1'' ''p2'',
      Render, Render, Render] initial_sidebar) \<and>
   (\<forall>outcomes.
      updates (fires_seq (Timer 1) outcomes
        (poll_run [Navigate (Some ''m1''), Start ''m1'' ''p1'', Render, Start ''m1'' ''p2'',
           Render, Render, Render] initial_sidebar)) = [] \<and>
      summary_requests (fires_seq (Timer 1) outcomes
        (poll_run [Navigate (Some ''m1''), Start ''m1'' ''p1'', Render, Start ''m1'' ''p2'',
           Render, Render, Render] initial_sidebar)) = [])"
proof -
  note run = startSummaryPolling_def stopSummaryPolling_def rerender_def page_cleanup_def
    provider_cleanup_def delete_poll_def setActiveSummaryPolls_def clearInterval_def
    entry_delete_def initial_sidebar_def Let_def
  let ?sb = "poll_run [Navigate (Some ''m1''), Start ''m1'' ''p1'', Render, Start ''m1'' ''p2'',
    Render, Render, Render] initial_sidebar"
  have dead: "intervals ?sb (Timer 1) = None"
    by (simp add: run)
  have logs: "updates ?sb = []" "summary_requests ?sb = []"
    by (simp_all add: run)
  have never: "updates (fires_seq (Timer 1) outcomes ?sb) = [] \<and>
      summary_requests (fires_seq (Timer 1) outcomes ?sb) = []" for outcomes
    unfolding fires_seq_dead [OF dead] logs by simp
  have steps:
    "intervals (poll_run [Navigate (Some ''m1''), Start ''m1'' ''p1'', Render] initial_sidebar) (Timer 0)
       = Some \<lparr>poll_meetingId = ''m1'', poll_processId = ''p1'', pollCount = 0\<rparr>"
    "intervals (poll_run [Navigate (Some ''m1''), Start ''m1'' ''p1'', Render, Start ''m1'' ''p2'']
        initial_sidebar) (Timer 0) = None"
    "intervals (poll_run [Navigate (Some ''m1''), Start ''m1'' ''p1'', Render, Start ''m1'' ''p2'']
        initial_sidebar) (Timer 1)
       = Some \<lparr>poll_meetingId = ''m1'', poll_processId = ''p2'', pollCount = 0\<rparr>"
    "activeSummaryPolls (poll_run [Navigate (Some ''m1''), Start ''m1'' ''p1'', Render, Start ''m1'' ''p2'']
        initial_sidebar) = [(''m1'', Timer 1)]"
    "activeSummaryPolls (poll_run [Navigate (Some ''m1''), Start ''m1'' ''p1'', Render, Start ''m1'' ''p2'',
        Render] initial_sidebar) = []"
    "intervals (poll_run [Navigate (Some ''m1''), Start ''m1'' ''p1'', Render, Start ''m1'' ''p2'',
        Render] initial_sidebar) (Timer 1)
       = Some \<lparr>poll_meetingId = ''m1'', poll_processId = ''p2'', pollCount = 0\<rparr>"
    "changed (poll_run [Navigate (Some ''m1''), Start ''m1'' ''p1'', Render, Start ''m1'' ''p2'',
        Render] initial_sidebar)"
    "intervals (poll_run [Navigate (Some ''m1''), Start ''m1'' ''p1'', Render, Start ''m1'' ''p2'',
        Render, Render] initial_sidebar) (Timer 1) = None"
    "activeSummaryPolls ?sb = []"
    "\<not> changed ?sb"
    by (simp_all add: run)
  from steps dead never show ?thesis
    by blast
qed

lemma start_clears_seen:
  "map_of seen mid = Some old \<Longrightarrow> old \<noteq> Timer (timers_set sb) \<Longrightarrow>
   intervals (startSummaryPolling seen mid pid sb) old = None"
  by (simp add: startSummaryPolling_def clearInterval_def setActiveSummaryPolls_def Let_def)

lemma start_registers:
  "map_of (activeSummaryPolls (startSummaryPolling seen mid pid sb)) mid = Some (Timer (timers_set sb)) \<and>
   intervals (startSummaryPolling seen mid pid sb) (Timer (timers_set sb))
     = Some \<lparr>poll_meetingId = mid, poll_processId = pid, pollCount = 0\<rparr>"
  by (simp add: startSummaryPolling_def clearInterval_def setActiveSummaryPolls_def Let_def
      map_of_entry_set split: option.splits)

lemma start_keeps_unseen:
  "map_of seen mid = None \<Longrightarrow> t \<noteq> Timer (timers_set sb) \<Longrightarrow>
   intervals (startSummaryPolling seen mid pid sb) t = intervals sb t"
  by (simp add: startSummaryPolling_def setActiveSummaryPolls_def Let_def)

lemma ends_removes:
  assumes "intervals sb t = Some p"
    and "MAX_POLLS \<le> pollCount p + 1 \<or> \<not> goes_on (pollCount p + 1) outcome"
  shows "intervals (interval_fires t outcome sb) t = None"
    and "map_of (activeSummaryPolls (interval_fires t outcome sb)) (poll_meetingId p) = None"
  using assms
  by (cases outcome; auto simp: interval_fires_def goes_on_def onUpdate_def delete_poll_def
      setActiveSummaryPolls_def clearInterval_def map_of_entry_delete Let_def)+





text \<open>
  C6.  Two runs for one meeting that are started through the \<^verbatim>\<open>startSummaryPolling\<close> of
  the same render leave two intervals.  On the page of meeting \<open>m1\<close> the first call sets
  \<open>Timer 0\<close> and hands React the update that registers it; the second call reads the
  \<^verbatim>\<open>Map\<close> of its render, which has no entry for \<open>m1\<close>, so it clears nothing, sets \<open>Timer 1\<close>
  and registers it in the place of \<open>Timer 0\<close>.  After the render both intervals are set
  for \<open>m1\<close> and no update is pending: no clean-up clears \<open>Timer 0\<close>, which was in no
  rendered \<^verbatim>\<open>Map\<close>.  Both poll \<^verbatim>\<open>api_get_summary\<close> and both call \<^verbatim>\<open>onUpdate\<close>.  A render
  between the two calls does not help a caller that still holds the callback of the
  render before: called with the empty \<^verbatim>\<open>Map\<close> of that render, \<^verbatim>\<open>startSummaryPolling\<close>
  leaves the rendered and registered \<open>Timer 0\<close> set beside the new \<open>Timer 1\<close>.
\<close>

theorem starts_of_one_render_leave_two_polls:
  "intervals (poll_run [Navigate (Some ''m1''), Start ''m1'' ''p1'', Start ''m1'' ''p2'']
      initial_sidebar) (Timer 0)
     = Some \<lparr>poll_meetingId = ''m1'', poll_processId = ''p1'', pollCount = 0\<rparr> \<and>
   intervals (poll_run [Navigate (Some ''m1''), Start ''m1'' ''p1'', Start ''m1'' ''p2'']
      initial_sidebar) (Timer 1)
     = Some \<lparr>poll_meetingId = ''m1'', poll_processId = ''p2'', pollCount = 0\<rparr> \<and>
   active_polls (poll_run [Navigate (Some ''m1''), Start ''m1'' ''p1'', Start ''m1'' ''p2'', Render]
      initial_sidebar) ''m1'' = {Timer 0, Timer 1} \<and>
   activeSummaryPolls (poll_run [Navigate (Some ''m1''), Start ''m1'' ''p1'', Start ''m1'' ''p2'', Render]
      initial_sidebar) = [(''m1'', Timer 1)] \<and>
   \<not> changed (poll_run [Navigate (Some ''m1''), Start ''m1'' ''p1'', Start ''m1'' ''p2'', Render]
      initial_sidebar) \<and>
   summary_requests (poll_run [Navigate (Some ''m1''), Start ''m1'' ''p1'', Start ''m1'' ''p2'', Render,
      Fires (Timer 0) (Inr processing_response), Fires (Timer 1) (Inr processing_response)]
      initial_sidebar) = [Timer 0, Timer 1] \<and>
   updates (poll_run [Navigate (Some ''m1''), Start ''m1'' ''p1'', Start ''m1'' ''p2'', Render,
      Fires (Timer 0) (Inr processing_response), Fires (Timer 1) (Inr processing_response)]
      initial_sidebar) = [(Timer 0, processing_response), (Timer 1, processing_response)] \<and>
   rendered (poll_run [Navigate (Some ''m1'')] initial_sidebar) = [] \<and>
   intervals (startSummaryPolling [] ''m1'' ''p2''
      (poll_run [Navigate (Some ''m1''), Start ''m1'' ''p1'', Render] initial_sidebar)) (Timer 0)
     = Some \<lparr>poll_meetingId = ''m1'', poll_processId = ''p1'', pollCount = 0\<rparr> \<and>
   intervals (startSummaryPolling [] ''m1'' ''p2''
      (poll_run [Navigate (Some ''m1''), Start ''m1'' ''p1'', Render] initial_sidebar)) (Timer 1)
     = Some \<lparr>poll_meetingId = ''m1'', poll_processId = ''p2'', pollCount = 0\<rparr>"
proof -
  note run = startSummaryPolling_def stopSummaryPolling_def rerender_def page_cleanup_def
    provider_cleanup_def delete_poll_def setActiveSummaryPolls_def clearInterval_def
    entry_delete_def initial_sidebar_def Let_def
  have both: "active_polls (poll_run [Navigate (Some ''m1''), Start ''m1'' ''p1'', Start ''m1'' ''p2'',
      Render] initial_sidebar) ''m1'' = {Timer 0, Timer 1}"
    by (auto simp: run active_polls_def split: if_splits)
  have rest:
    "intervals (poll_run [Navigate (Some ''m1''), Start ''m1'' ''p1'', Start ''m1'' ''p2'']
        initial_sidebar) (Timer 0)
       = Some \<lparr>poll_meetingId = ''m1'', poll_processId = ''p1'', pollCount = 0\<rparr>"
    "intervals (poll_run [Navigate (Some ''m1''), Start ''m1'' ''p1'', Start ''m1'' ''p2'']
        initial_sidebar) (Timer 1)
       = Some \<lparr>poll_meetingId = ''m1'', poll_processId = ''p2'', pollCount = 0\<rparr>"
    "activeSummaryPolls (poll_run [Navigate (Some ''m1''), Start ''m1'' ''p1'', Start ''m1'' ''p2'', Render]
        initial_sidebar) = [(''m1'', Timer 1)]"
    "\<not> changed (poll_run [Navigate (Some ''m1''), Start ''m1'' ''p1'', Start ''m1'' ''p2'', Render]
        initial_sidebar)"
    "summary_requests (poll_run [Navigate (Some ''m1''), Start ''m1'' ''p1'', Start ''m1'' ''p2'', Render,
        Fires (Timer 0) (Inr processing_response), Fires (Timer 1) (Inr processing_response)]
        initial_sidebar) = [Timer 0, Timer 1]"
    "updates (poll_run [Navigate (Some ''m1''), Start ''m1'' ''p1'', Start ''m1'' ''p2'', Render,
        Fires (Timer 0) (Inr processing_response), Fires (Timer 1) (Inr processing_response)]
        initial_sidebar) = [(Timer 0, processing_response), (Timer 1, processing_response)]"
    "rendered (poll_run [Navigate (Some ''m1'')] initial_sidebar) = []"
    "intervals (startSummaryPolling [] ''m1'' ''p2''
        (poll_run [Navigate (Some ''m1''), Start ''m1'' ''p1'', Render] initial_sidebar)) (Timer 0)
       = Some \<lparr>poll_meetingId = ''m1'', poll_processId = ''p1'', pollCount = 0\<rparr>"
    "intervals (startSummaryPolling [] ''m1'' ''p2''
        (poll_run [Navigate (Some ''m1''), Start ''m1'' ''p1'', Render] initial_sidebar)) (Timer 1)
       = Some \<lparr>poll_meetingId = ''m1'', poll_processId = ''p2'', pollCount = 0\<rparr>"
    by (simp_all add: run interval_fires_def onUpdate_def processing_response_def MAX_POLLS_def)
  from both rest show ?thesis
    by blast
qed

section \<open>Properties of the summary generation\<close>

lemma reloaded_Some:
  "api_get_summary = Inr (Some prior) \<Longrightarrow> truthy (data_sr prior) \<Longrightarrow>
   reloaded api_get_summary = Some (data_sr prior)"
  by (simp add: reloaded_def)

lemma reloaded_SomeD:
  "reloaded api_get_summary = Some d \<Longrightarrow>
   \<exists>prior. api_get_summary = Inr (Some prior) \<and> truthy (data_sr prior) \<and> d = data_sr prior"
  by (auto simp: reloaded_def split: sum.splits option.splits if_splits)

text \<open>
  C1.  A run started as a regeneration receives the status \<^verbatim>\<open>error\<close> or \<^verbatim>\<open>failed\<close>.  When
  \<^verbatim>\<open>api_get_summary\<close> gives back the stored summary, that summary is put on display, the
  status is \<open>completed\<close>, the error is cleared, and the failure is reported by a toast and
  an analytics event only.  In every case the summary on display afterwards is the one
  that was on display or the stored one.
\<close>

theorem regeneration_failure_restores_summary:
  assumes "status r = ''error'' \<or> status r = ''failed''"
  shows "(api_get_summary = Inr (Some prior) \<and> truthy (data_sr prior) \<longrightarrow>
            aiSummary (on_update p True api_get_summary r st) = data_sr prior \<and>
            summaryStatus (on_update p True api_get_summary r st) = completed \<and>
            summaryError (on_update p True api_get_summary r st) = None \<and>
            effects (on_update p True api_get_summary r st) = effects st @
              [ToastError (failed_text True) (errorMessage_of True r @ restored_suffix),
               TrackSummaryGenerationCompleted (provider p) (model p) False
                 (Some (errorMessage_of True r))]) \<and>
         (aiSummary (on_update p True api_get_summary r st) = aiSummary st \<or>
          (\<exists>prior. api_get_summary = Inr (Some prior) \<and> truthy (data_sr prior) \<and>
             aiSummary (on_update p True api_get_summary r st) = data_sr prior))"
proof -
  have u: "on_update p True api_get_summary r st = on_error p True api_get_summary r st"
    using assms by (auto simp: on_update_def)
  show ?thesis
  proof (cases "reloaded api_get_summary")
    case None
    then have "aiSummary (on_error p True api_get_summary r st) = aiSummary st"
      by (simp add: on_error_def emit_def Let_def)
    moreover have "\<not> (api_get_summary = Inr (Some prior) \<and> truthy (data_sr prior))"
      using None reloaded_Some by fastforce
    ultimately show ?thesis unfolding u by blast
  next
    case (Some d)
    from reloaded_SomeD [OF this] obtain q where
      q: "api_get_summary = Inr (Some q)" "truthy (data_sr q)" "d = data_sr q" by blast
    have "aiSummary (on_error p True api_get_summary r st) = d"
      "summaryStatus (on_error p True api_get_summary r st) = completed"
      "summaryError (on_error p True api_get_summary r st) = None"
      "effects (on_error p True api_get_summary r st) = effects st @
              [ToastError (failed_text True) (errorMessage_of True r @ restored_suffix),
               TrackSummaryGenerationCompleted (provider p) (model p) False
                 (Some (errorMessage_of True r))]"
      using Some by (simp_all add: on_error_def emit_def Let_def)
    with q show ?thesis unfolding u by auto
  qed
qed

theorem regeneration_failure_restores_summary_witness:
  "status (summary_response ''failed'' JUndefined (Some ''model crashed'')) = ''failed'' \<and>
   truthy (data_sr (summary_response ''completed'' (JObj [(''markdown'', JStr ''# Old summary'')]) None)) \<and>
   aiSummary (on_update example_props True
      (Inr (Some (summary_response ''completed'' (JObj [(''markdown'', JStr ''# Old summary'')]) None)))
      (summary_response ''failed'' JUndefined (Some ''model crashed''))
      (regenerating_hook (JObj [(''markdown'', JStr ''# Old summary'')])))
     = JObj [(''markdown'', JStr ''# Old summary'')] \<and>
   summaryStatus (on_update example_props True
      (Inr (Some (summary_response ''completed'' (JObj [(''markdown'', JStr ''# Old summary'')]) None)))
      (summary_response ''failed'' JUndefined (Some ''model crashed''))
      (regenerating_hook (JObj [(''markdown'', JStr ''# Old summary'')]))) = completed \<and>
   summaryError (on_update example_props True
      (Inr (Some (summary_response ''completed'' (JObj [(''markdown'', JStr ''# Old summary'')]) None)))
      (summary_response ''failed'' JUndefined (Some ''model crashed''))
      (regenerating_hook (JObj [(''markdown'', JStr ''# Old summary'')]))) = None"
  using regeneration_failure_restores_summary [of
      "summary_response ''failed'' JUndefined (Some ''model crashed'')"
      "Inr (Some (summary_response ''completed'' (JObj [(''markdown'', JStr ''# Old summary'')]) None))"
      "summary_response ''completed'' (JObj [(''markdown'', JStr ''# Old summary'')]) None"
      example_props "regenerating_hook (JObj [(''markdown'', JStr ''# Old summary'')])"]
  by (simp add: summary_response_def)

text \<open>
  C5.  A run receives the status \<^verbatim>\<open>cancelled\<close>.  When \<^verbatim>\<open>api_get_summary\<close> gives back the
  stored summary, it is put on display with the status \<open>completed\<close>; the error is cleared
  in every case; the status goes back to \<open>idle\<close> exactly when no stored summary comes
  back, and then the display is left as it was.
\<close>

theorem cancellation_restores_summary:
  assumes "status r = ''cancelled''"
  shows "(api_get_summary = Inr (Some prior) \<and> truthy (data_sr prior) \<longrightarrow>
            aiSummary (on_update p isRegeneration api_get_summary r st) = data_sr prior \<and>
            summaryStatus (on_update p isRegeneration api_get_summary r st) = completed) \<and>
         summaryError (on_update p isRegeneration api_get_summary r st) = None \<and>
         (summaryStatus (on_update p isRegeneration api_get_summary r st) = idle \<longleftrightarrow>
            \<not> (\<exists>prior. api_get_summary = Inr (Some prior) \<and> truthy (data_sr prior))) \<and>
         (summaryStatus (on_update p isRegeneration api_get_summary r st) = idle \<longrightarrow>
            aiSummary (on_update p isRegeneration api_get_summary r st) = aiSummary st) \<and>
         (summaryStatus (on_update p isRegeneration api_get_summary r st) = idle \<or>
          summaryStatus (on_update p isRegeneration api_get_summary r st) = completed)"
proof -
  have u: "on_update p isRegeneration api_get_summary r st = on_cancelled api_get_summary st"
    using assms by (simp add: on_update_def)
  show ?thesis
  proof (cases "reloaded api_get_summary")
    case None
    then have "\<not> (\<exists>prior. api_get_summary = Inr (Some prior) \<and> truthy (data_sr prior))"
      using reloaded_Some by fastforce
    moreover have "summaryStatus (on_cancelled api_get_summary st) = idle"
      "summaryError (on_cancelled api_get_summary st) = None"
      "aiSummary (on_cancelled api_get_summary st) = aiSummary st"
      using None by (simp_all add: on_cancelled_def)
    ultimately show ?thesis unfolding u by blast
  next
    case (Some d)
    from reloaded_SomeD [OF this] obtain q where
      q: "api_get_summary = Inr (Some q)" "truthy (data_sr q)" "d = data_sr q" by blast
    have "summaryStatus (on_cancelled api_get_summary st) = completed"
      "summaryError (on_cancelled api_get_summary st) = None"
      "aiSummary (on_cancelled api_get_summary st) = d"
      using Some by (simp_all add: on_cancelled_def)
    with q show ?thesis unfolding u by auto
  qed
qed

theorem cancellation_restores_summary_witness:
  "status (summary_response ''cancelled'' JUndefined None) = ''cancelled'' \<and>
   truthy (data_sr (summary_response ''completed'' (JObj [(''markdown'', JStr ''# Old summary'')]) None)) \<and>
   aiSummary (on_update example_props True
      (Inr (Some (summary_response ''completed'' (JObj [(''markdown'', JStr ''# Old summary'')]) None)))
      (summary_response ''cancelled'' JUndefined None)
      (regenerating_hook JNull))
     = JObj [(''markdown'', JStr ''# Old summary'')] \<and>
   summaryStatus (on_update example_props True
      (Inr (Some (summary_response ''completed'' (JObj [(''markdown'', JStr ''# Old summary'')]) None)))
      (summary_response ''cancelled'' JUndefined None)
      (regenerating_hook JNull)) = completed \<and>
   summaryError (on_update example_props True
      (Inr (Some (summary_response ''completed'' (JObj [(''markdown'', JStr ''# Old summary'')]) None)))
      (summary_response ''cancelled'' JUndefined None)
      (regenerating_hook JNull)) = None"
  using cancellation_restores_summary [of
      "summary_response ''cancelled'' JUndefined None"
      "Inr (Some (summary_response ''completed'' (JObj [(''markdown'', JStr ''# Old summary'')]) None))"
      "summary_response ''completed'' (JObj [(''markdown'', JStr ''# Old summary'')]) None"
      example_props True "regenerating_hook JNull"]
  by (simp add: summary_response_def)

lemma section_empty_no_blocks:
  assumes "sec \<noteq> JNull" "sec \<noteq> JUndefined"
    and "\<not> truthy (field sec ''blocks'') \<or> field sec ''blocks'' = JArr []"
  shows "section_empty sec = Inr True"
proof -
  have "get_prop sec ''blocks'' = Inr (field sec ''blocks'')"
  proof (cases sec)
    case JUndefined
    with assms(2) show ?thesis by simp
  next
    case JNull
    with assms(1) show ?thesis by simp
  qed (simp_all add: field_def)
  moreover have "field (JArr []) ''length'' = JNum 0"
    by (simp add: field_def)
  ultimately show ?thesis
    using assms(3) by (auto simp: section_empty_def)
qed

lemma every_empty_sections:
  assumes "\<forall>section \<in> set sections. section \<noteq> JNull \<and> section \<noteq> JUndefined \<and>
      (\<not> truthy (field section ''blocks'') \<or> field section ''blocks'' = JArr [])"
  shows "every_empty sections = Inr True"
  using assms
proof (induction sections)
  case Nil
  then show ?case by simp
next
  case (Cons s ss)
  then have "section_empty s = Inr True"
    by (simp add: section_empty_no_blocks)
  with Cons show ?case by simp
qed

text \<open>
  A completed result without markdown (the legacy format) in which every entry,
  \<^verbatim>\<open>MeetingName\<close> apart, is a value other than \<^verbatim>\<open>null\<close> and \<^verbatim>\<open>undefined\<close> that has no blocks
  or an empty list of blocks: the status becomes \<open>error\<close>, the error is the message about
  empty content, and the display is left as it was.
\<close>

lemma empty_sections_are_error:
  assumes "status r = ''completed''"
    and "data_sr r = JObj kvs"
    and "\<not> truthy (field (JObj kvs) ''markdown'')"
    and "\<forall>(key, section) \<in> set kvs. key \<noteq> ''MeetingName'' \<longrightarrow>
           section \<noteq> JNull \<and> section \<noteq> JUndefined \<and>
           (\<not> truthy (field section ''blocks'') \<or> field section ''blocks'' = JArr [])"
  shows "summaryStatus (on_update p isRegeneration api_get_summary r st) = error \<and>
         summaryError (on_update p isRegeneration api_get_summary r st) = Some empty_content_message \<and>
         aiSummary (on_update p isRegeneration api_get_summary r st) = aiSummary st"
proof -
  have u: "on_update p isRegeneration api_get_summary r st = on_completed p r st"
    using assms(1,2) by (simp add: on_update_def)
  have "every_empty (map snd (summarySections (JObj kvs))) = Inr True"
    using assms(4) by (intro every_empty_sections) (auto simp: summarySections_def)
  then show ?thesis
    unfolding u using assms(2,3) by (simp add: on_completed_def Let_def emit_def)
qed

text \<open>
  C9.  A completed legacy result in which a section is \<^verbatim>\<open>null\<close>.  Every section of
  \<^verbatim>\<open>{Agenda: null, Decisions: {title: 'Decisions', blocks: []}}\<close> has no blocks, but the
  test of \<^verbatim>\<open>every\<close> reads \<^verbatim>\<open>.blocks\<close> of the section without a guard, and on \<^verbatim>\<open>null\<close> that
  throws.  The throw is inside the asynchronous callback, which nobody awaits: no status
  and no error is set, so the status stays \<open>regenerating\<close> and the display is as it was.
  With an empty object in the place of \<^verbatim>\<open>null\<close> the same result gives the status \<open>error\<close>
  with the message about empty content.
\<close>

theorem null_section_leaves_run_open:
  "summaryStatus (on_update example_props True (Inr None)
      (summary_response ''completed''
        (JObj [(''Agenda'', JNull),
               (''Decisions'', JObj [(''title'', JStr ''Decisions''), (''blocks'', JArr [])])]) None)
      (regenerating_hook JNull)) = regenerating \<and>
   summaryError (on_update example_props True (Inr None)
      (summary_response ''completed''
        (JObj [(''Agenda'', JNull),
               (''Decisions'', JObj [(''title'', JStr ''Decisions''), (''blocks'', JArr [])])]) None)
      (regenerating_hook JNull)) = None \<and>
   aiSummary (on_update example_props True (Inr None)
      (summary_response ''completed''
        (JObj [(''Agenda'', JNull),
               (''Decisions'', JObj [(''title'', JStr ''Decisions''), (''blocks'', JArr [])])]) None)
      (regenerating_hook JNull)) = JNull \<and>
   effects (on_update example_props True (Inr None)
      (summary_response ''completed''
        (JObj [(''Agenda'', JNull),
               (''Decisions'', JObj [(''title'', JStr ''Decisions''), (''blocks'', JArr [])])]) None)
      (regenerating_hook JNull)) = [Unhandled TypeError] \<and>
   summaryStatus (on_update example_props True (Inr None)
      (summary_response ''completed''
        (JObj [(''Agenda'', JObj []),
               (''Decisions'', JObj [(''title'', JStr ''Decisions''), (''blocks'', JArr [])])]) None)
      (regenerating_hook JNull)) = error \<and>
   summaryError (on_update example_props True (Inr None)
      (summary_response ''completed''
        (JObj [(''Agenda'', JObj []),
               (''Decisions'', JObj [(''title'', JStr ''Decisions''), (''blocks'', JArr [])])]) None)
      (regenerating_hook JNull)) = Some empty_content_message"
  by (simp add: on_update_def on_completed_def summary_response_def regenerating_hook_def
      example_props_def summarySections_def section_empty_def field_def emit_def Let_def)




end
